theory Spec2Isabelle
  imports Complex_Main "HOL-Library.Multiset"
begin

section \<open>Service location and capability resolution of the bsvalias client\<close>

text \<open>
  This theory embeds the two classes of \<^verbatim>\<open>bsvalias-core\<close> that locate the server of a
  domain and fetch its capability document: \<^verbatim>\<open>DohSrvResolver\<close> (doh-srv-resolver.ts) and
  \<^verbatim>\<open>CapabilityResolver\<close> (capability-resolver.ts), together with the part of
  \<^verbatim>\<open>Request\<close> (request.ts) that turns the outcome of an HTTP call into a value or an error.

  Conventions of the embedding:
  \<^item> a JavaScript string is a \<open>string\<close>; a \<open>char\<close> stands for a UTF-16 code unit below 256,
    so the only line terminators are LF and CR and the only white space characters are
    TAB, LF, VT, FF, CR, SP and NBSP;
  \<^item> a JavaScript number that the code obtains from \<^verbatim>\<open>parseInt\<close> or adds up is an \<open>int\<close>
    (the rounding of doubles beyond 2^53 is not modelled);
  \<^item> \<^verbatim>\<open>Math.random()\<close> is a sequence \<open>nat \<Rightarrow> rat\<close> of draws and a counter of the draws
    consumed so far; a draw is a rational number, and its product with the total weight is
    exact;
  \<^item> a \<^verbatim>\<open>throw\<close> is the \<open>Inl\<close> of a sum type.
\<close>

subsection \<open>Errors (errors.ts) and the runtime's TypeError\<close>

text \<open>The classes of errors.ts, each with the message or status it is constructed with, and
  the TypeError that the runtime throws when a property of \<^verbatim>\<open>undefined\<close> or \<^verbatim>\<open>null\<close> is
  read.\<close>

datatype error =
    BsvAliasClientError string
  | UnexpectedBsvAliasNetworkError string
  | ConnectionTimeoutError
  | DnsServerResponseError string
  | BsvAliasClientConfigurationError string
  | BsvAliasServerErrorResponse int
  | BsvAliasUnexpectedServerResponseError string
  | BsvAliasCapabilityNotSupportedError string
  | DNSSECNotEnabledError string
  | TypeError

subsection \<open>Data (doh-srv-resolver.ts, srv-resolver.ts)\<close>

text \<open>
  The interfaces of the source. Fields that two interfaces share by name carry a prefix here.
  Of \<^verbatim>\<open>QueryResponse\<close> only the fields that the code reads are kept; \<^verbatim>\<open>Question\<close> and
  \<^verbatim>\<open>Answer\<close> are \<open>None\<close> when the member is missing or is not an array.
\<close>

record QueryQuestion =
  question_name :: string
  question_type :: int

record ResourceRecordAnswer =
  answer_name :: string
  answer_type :: int
  answer_TTL :: int
  answer_data :: string

record SrvRecord =
  srv_name :: string
  srv_TTL :: int
  priority :: int
  weight :: int
  srv_port :: int
  target :: string

record SrvRecordWithRunningSum = SrvRecord +
  runningSum :: int

record QueryResponse =
  Status :: int
  AD :: bool
  Question :: "QueryQuestion list option"
  Answer :: "ResourceRecordAnswer list option"

record DomainService =
  host :: string
  port :: int

record SrvResolverResponse =
  services :: "DomainService list"
  isDomainSecure :: bool

definition NOERROR :: int where "NOERROR = 0"

definition NXDOMAIN :: int where "NXDOMAIN = 3"

definition SRV :: int where "SRV = 33"

subsection \<open>The string primitives of the runtime that the code calls\<close>

text \<open>\<^verbatim>\<open>s.split(' ')\<close>: the pieces between the occurrences of the separator; one piece more
  than there are separators, so the empty string gives one empty piece.\<close>

fun split_js :: "char \<Rightarrow> string \<Rightarrow> string list" where
  "split_js sep [] = [[]]"
| "split_js sep (c # cs) =
     (if c = sep then [] # split_js sep cs
      else (case split_js sep cs of
              [] \<Rightarrow> [[c]]
            | t # ts \<Rightarrow> (c # t) # ts))"

definition isStrWhiteSpaceChar :: "char \<Rightarrow> bool" where
  "isStrWhiteSpaceChar c \<longleftrightarrow> of_char c \<in> {9, 10, 11, 12, 13, 32, 160 :: nat}"

definition isLineTerminator :: "char \<Rightarrow> bool" where
  "isLineTerminator c \<longleftrightarrow> of_char c \<in> {10, 13 :: nat}"

definition isDecimalDigit :: "char \<Rightarrow> bool" where
  "isDecimalDigit c \<longleftrightarrow> 48 \<le> (of_char c :: nat) \<and> (of_char c :: nat) \<le> 57"

definition digitsValue :: "string \<Rightarrow> int" where
  "digitsValue ds = foldl (\<lambda>acc c. 10 * acc + (int (of_char c) - 48)) 0 ds"

text \<open>\<^verbatim>\<open>parseInt(s, 10)\<close>: leading white space is skipped, one sign is read, then the longest
  run of decimal digits; whatever follows is ignored. \<open>None\<close> is \<^verbatim>\<open>NaN\<close> (no digit found).\<close>

definition parseInt :: "string \<Rightarrow> int option" where
  "parseInt s =
     (let S = dropWhile isStrWhiteSpaceChar s;
          sign = (if S \<noteq> [] \<and> hd S = CHR ''-'' then - 1 else 1 :: int);
          S' = (if S \<noteq> [] \<and> (hd S = CHR ''-'' \<or> hd S = CHR ''+'') then tl S else S);
          Z = takeWhile isDecimalDigit S'
      in if Z = [] then None else Some (sign * digitsValue Z))"

text \<open>\<^verbatim>\<open>s.replace(/\.$/, '')\<close>: one dot at the very end of the string is removed.\<close>

definition stripTrailingDot :: "string \<Rightarrow> string" where
  "stripTrailingDot s = (if s \<noteq> [] \<and> last s = CHR ''.'' then butlast s else s)"

text \<open>\<^verbatim>\<open>/^(.*?)\.?$/.exec(s)\<close>, reduced to its first capture group: the dot of the pattern does
  not match a line terminator, so a string that holds one does not match at all (\<open>None\<close>);
  otherwise the lazy group stops before one final dot.\<close>

definition execTargetRegex :: "string \<Rightarrow> string option" where
  "execTargetRegex s = (if list_ex isLineTerminator s then None else Some (stripTrailingDot s))"

subsection \<open>\<^verbatim>\<open>DohSrvResolver.deserialiseSrvAnswer\<close>\<close>

definition deserialiseSrvAnswer :: "ResourceRecordAnswer \<Rightarrow> error + SrvRecord" where
  "deserialiseSrvAnswer answer =
     (let dataElements = split_js CHR '' '' (answer_data answer) in
      if length dataElements \<noteq> 4 then Inl (DnsServerResponseError ''Invalid answer'')
      else case parseInt (dataElements ! 0) of
        None \<Rightarrow> Inl (DnsServerResponseError
                  ''Invalid priority: value could not be converted to a number'')
      | Some priority' \<Rightarrow>
      (case parseInt (dataElements ! 1) of
        None \<Rightarrow> Inl (DnsServerResponseError
                  ''Invalid weight: value could not be converted to a number'')
      | Some weight' \<Rightarrow>
      (case parseInt (dataElements ! 2) of
        None \<Rightarrow> Inl (DnsServerResponseError
                  ''Invalid port: value could not be converted to a number'')
      | Some port' \<Rightarrow>
      (case execTargetRegex (dataElements ! 3) of
        None \<Rightarrow> Inl (DnsServerResponseError ''Invalid target domain name found'')
      | Some target' \<Rightarrow>
          Inr \<lparr> srv_name = answer_name answer, srv_TTL = answer_TTL answer,
                priority = priority', weight = weight', srv_port = port',
                target = (if target' = '''' then ''.'' else target') \<rparr>))))"

subsection \<open>\<^verbatim>\<open>DohSrvResolver.orderResourceListByWeight\<close>\<close>

definition withRunningSum :: "SrvRecord \<Rightarrow> SrvRecordWithRunningSum" where
  "withRunningSum r =
     \<lparr> srv_name = srv_name r, srv_TTL = srv_TTL r, priority = priority r, weight = weight r,
       srv_port = srv_port r, target = target r, runningSum = 0 \<rparr>"

definition toService :: "SrvRecordWithRunningSum \<Rightarrow> DomainService" where
  "toService r = \<lparr> host = target r, port = srv_port r \<rparr>"

text \<open>The first \<^verbatim>\<open>forEach\<close> of the loop body: every record receives the sum of the weights up
  to and including its own; the accumulator is returned with the records.\<close>

fun assignRunningSums ::
  "int \<Rightarrow> SrvRecordWithRunningSum list \<Rightarrow> SrvRecordWithRunningSum list \<times> int" where
  "assignRunningSums sumAccumulator [] = ([], sumAccumulator)"
| "assignRunningSums sumAccumulator (r # rs) =
     (let sumAccumulator' = sumAccumulator + weight r;
          (rs', sumTotal) = assignRunningSums sumAccumulator' rs
      in (r\<lparr>runningSum := sumAccumulator'\<rparr> # rs', sumTotal))"

text \<open>The second \<^verbatim>\<open>forEach\<close>: the state is \<^verbatim>\<open>nextSrvRecord\<close> (\<open>None\<close> for \<^verbatim>\<open>null\<close>) and
  \<^verbatim>\<open>newRecordsToProcess\<close>.\<close>

fun pickNext ::
  "int \<Rightarrow> SrvRecordWithRunningSum list \<Rightarrow>
   SrvRecordWithRunningSum option \<times> SrvRecordWithRunningSum list \<Rightarrow>
   SrvRecordWithRunningSum option \<times> SrvRecordWithRunningSum list" where
  "pickNext randomNumber [] st = st"
| "pickNext randomNumber (r # rs) (nextSrvRecord, newRecordsToProcess) =
     (if nextSrvRecord = None \<and> randomNumber \<le> runningSum r
      then pickNext randomNumber rs (Some r, newRecordsToProcess)
      else pickNext randomNumber rs (nextSrvRecord, newRecordsToProcess @ [r]))"

lemma pickNext_Some:
  "pickNext n rs (Some x, new) = (Some x, new @ rs)"
  by (induction rs arbitrary: new) simp_all

lemma pickNext_None:
  "pickNext n rs (None, new) =
     (case dropWhile (\<lambda>r. \<not> n \<le> runningSum r) rs of
        [] \<Rightarrow> (None, new @ rs)
      | r # rest \<Rightarrow> (Some r, new @ takeWhile (\<lambda>r. \<not> n \<le> runningSum r) rs @ rest))"
proof (induction rs arbitrary: new)
  case Nil
  show ?case by simp
next
  case (Cons a rs)
  show ?case
  proof (cases "n \<le> runningSum a")
    case True
    then show ?thesis by (simp add: pickNext_Some)
  next
    case False
    then show ?thesis
      by (cases "dropWhile (\<lambda>r. \<not> n \<le> runningSum r) rs")
         (simp_all add: Cons.IH del: dropWhile_eq_Nil_conv)
  qed
qed

lemma pickNext_length:
  assumes "pickNext n rs (None, []) = (Some r, new)"
  shows "Suc (length new) = length rs"
proof -
  let ?P = "\<lambda>r. \<not> n \<le> runningSum r"
  from assms obtain rest where d: "dropWhile ?P rs = r # rest"
    and n: "new = takeWhile ?P rs @ rest"
    by (auto simp: pickNext_None split: list.splits)
  have "length rs = length (takeWhile ?P rs @ dropWhile ?P rs)" by simp
  also have "\<dots> = Suc (length new)" unfolding d n by simp
  finally show ?thesis by simp
qed

lemma assignRunningSums_length:
  "length (fst (assignRunningSums acc rs)) = length rs"
  by (induction rs arbitrary: acc) (simp_all add: Let_def case_prod_beta)

text \<open>The \<^verbatim>\<open>while\<close> loop. With one record left no draw is made. Otherwise draw \<open>k\<close> of the
  random sequence is scaled by the total weight and floored; when no record is picked,
  \<^verbatim>\<open>nextSrvRecord!.target\<close> reads a property of \<^verbatim>\<open>null\<close>, which is a TypeError.\<close>

function orderLoop ::
  "(nat \<Rightarrow> rat) \<Rightarrow> nat \<Rightarrow> SrvRecordWithRunningSum list \<Rightarrow> DomainService list \<Rightarrow>
   error + (DomainService list \<times> nat)" where
  "orderLoop random k recordsToProcess sortedList =
     (if length recordsToProcess = 1
      then Inr (sortedList @ [toService (hd recordsToProcess)], k)
      else
        (let (summed, sumAccumulator) = assignRunningSums 0 recordsToProcess;
             randomNumber = \<lfloor>random k * of_int sumAccumulator\<rfloor>
         in case pickNext randomNumber summed (None, []) of
              (None, newRecordsToProcess) \<Rightarrow> Inl TypeError
            | (Some nextSrvRecord, newRecordsToProcess) \<Rightarrow>
                orderLoop random (Suc k) newRecordsToProcess
                  (sortedList @ [toService nextSrvRecord])))"
  by pat_completeness auto

termination
proof (relation "measure (\<lambda>(random, k, rs, sortedList). length rs)", goal_cases)
  case 1
  show ?case by simp
next
  case (2 random k rs sortedList p summed sumAccumulator randomNumber q new r)
  from 2 have "assignRunningSums 0 rs = (summed, sumAccumulator)" by simp
  then have len: "length summed = length rs"
    using assignRunningSums_length[of 0 rs] by simp
  from 2 have "pickNext randomNumber summed (None, []) = (Some r, new)" by simp
  from pickNext_length[OF this] len show ?case by simp
qed

declare orderLoop.simps [simp del]

definition orderResourceListByWeight ::
  "(nat \<Rightarrow> rat) \<Rightarrow> nat \<Rightarrow> SrvRecord list \<Rightarrow> error + (DomainService list \<times> nat)" where
  "orderResourceListByWeight random k recordsToOrder =
     (let recordsToProcess = map withRunningSum recordsToOrder in
      if length recordsToProcess > 0 then orderLoop random k recordsToProcess []
      else Inr ([], k))"

subsection \<open>\<^verbatim>\<open>Request\<close> (request.ts)\<close>

text \<open>
  The HTTP library either resolves with the parsed body or rejects with an error object, of
  which \<^verbatim>\<open>sendRequest\<close> reads the response (here its status, \<open>None\<close> when there is no
  response), whether it is a cancellation, its code and its message. The network is a
  function from the URL to that outcome; the headers of a request do not reach any result
  and are left out.
\<close>

record AxiosError =
  response_status :: "int option"
  isCancel :: bool
  code :: string
  message :: string

datatype 'a AxiosOutcome = Resolves 'a | Rejects AxiosError

definition sendRequest :: "'a AxiosOutcome \<Rightarrow> error + 'a" where
  "sendRequest outcome =
     (case outcome of
        Resolves result_data \<Rightarrow> Inr result_data
      | Rejects err \<Rightarrow>
          (case response_status err of
             Some status \<Rightarrow> Inl (BsvAliasServerErrorResponse status)
           | None \<Rightarrow>
               if isCancel err \<or> code err = ''ECONNABORTED'' then Inl ConnectionTimeoutError
               else Inl (UnexpectedBsvAliasNetworkError (message err))))"

definition request_get :: "(string \<Rightarrow> 'a AxiosOutcome) \<Rightarrow> string \<Rightarrow> error + 'a" where
  "request_get network url = sendRequest (network url)"

subsection \<open>\<^verbatim>\<open>DohSrvResolver.locateServices\<close>\<close>

text \<open>\<^verbatim>\<open>answers.filter(...).map(answer => this.deserialiseSrvAnswer(answer))\<close>: the first
  answer that does not deserialise throws.\<close>

fun mapDeserialise :: "ResourceRecordAnswer list \<Rightarrow> error + SrvRecord list" where
  "mapDeserialise [] = Inr []"
| "mapDeserialise (answer # answers) =
     (case deserialiseSrvAnswer answer of
        Inl e \<Rightarrow> Inl e
      | Inr srvRecord \<Rightarrow>
          (case mapDeserialise answers of
             Inl e \<Rightarrow> Inl e
           | Inr srvRecords \<Rightarrow> Inr (srvRecord # srvRecords)))"

text \<open>The \<^verbatim>\<open>forEach\<close> over the sorted records. Its state is \<^verbatim>\<open>previousPriority\<close>,
  \<^verbatim>\<open>recordsToProcess\<close>, \<^verbatim>\<open>sortedServices\<close> and the counter of draws.\<close>

fun forEachSrvRecord ::
  "(nat \<Rightarrow> rat) \<Rightarrow> SrvRecord list \<Rightarrow>
   int option \<times> SrvRecord list \<times> DomainService list \<times> nat \<Rightarrow>
   error + (int option \<times> SrvRecord list \<times> DomainService list \<times> nat)" where
  "forEachSrvRecord random [] st = Inr st"
| "forEachSrvRecord random (srvRecord # rest)
     (previousPriority, recordsToProcess, sortedServices, k) =
     (if Some (priority srvRecord) \<noteq> previousPriority
      then (case orderResourceListByWeight random k recordsToProcess of
              Inl e \<Rightarrow> Inl e
            | Inr (ordered, k') \<Rightarrow>
                forEachSrvRecord random rest
                  (Some (priority srvRecord), [srvRecord], sortedServices @ ordered, k'))
      else forEachSrvRecord random rest
             (previousPriority, recordsToProcess @ [srvRecord], sortedServices, k))"

text \<open>The part of \<^verbatim>\<open>locateServices\<close> from the comment ``Order records by priority'' to the
  last call of \<^verbatim>\<open>orderResourceListByWeight\<close>. \<^verbatim>\<open>Array.prototype.sort\<close> is stable
  (ECMAScript 2019), as \<open>sort_key\<close> is.\<close>

definition orderByPriorityAndWeight ::
  "(nat \<Rightarrow> rat) \<Rightarrow> nat \<Rightarrow> SrvRecord list \<Rightarrow> error + (DomainService list \<times> nat)" where
  "orderByPriorityAndWeight random k srvRecords =
     (let sortedSrvRecords =
            sort_key priority (filter (\<lambda>srvRecord. target srvRecord \<noteq> ''.'') srvRecords);
          previousPriority =
            (if length sortedSrvRecords > 0 then Some (priority (hd sortedSrvRecords)) else None)
      in case forEachSrvRecord random sortedSrvRecords (previousPriority, [], [], k) of
           Inl e \<Rightarrow> Inl e
         | Inr (previousPriority', recordsToProcess, sortedServices, k') \<Rightarrow>
             (case orderResourceListByWeight random k' recordsToProcess of
                Inl e \<Rightarrow> Inl e
              | Inr (ordered, k'') \<Rightarrow> Inr (sortedServices @ ordered, k'')))"

text \<open>The part of \<^verbatim>\<open>locateServices\<close> that follows the request: the checks of the response
  in the order of the source, then the records.\<close>

definition processResponse ::
  "(nat \<Rightarrow> rat) \<Rightarrow> string \<Rightarrow> QueryResponse \<Rightarrow> error + SrvResolverResponse option" where
  "processResponse random queryName response =
     (if Status response = NXDOMAIN then Inr None
      else if Status response \<noteq> NOERROR
      then Inl (DnsServerResponseError ''Error response sent by the server'')
      else case Question response of
        None \<Rightarrow> Inl (DnsServerResponseError ''No `Question` field found'')
      | Some questions \<Rightarrow>
          if length questions \<noteq> 1
          then Inl (DnsServerResponseError ''Expected only one `Question` element'')
          else
            let question = questions ! 0 in
            if \<not> (question_name question \<noteq> [] \<and> question_name question = queryName)
            then Inl (DnsServerResponseError ''Invalid question name'')
            else if \<not> (question_type question \<noteq> 0 \<and> question_type question = SRV)
            then Inl (DnsServerResponseError ''Invalid question type'')
            else case Answer response of
              None \<Rightarrow> Inr None
            | Some answers \<Rightarrow>
                (case mapDeserialise
                        (filter (\<lambda>answer. answer_name answer = question_name question \<and>
                                           answer_type answer = question_type question) answers) of
                   Inl e \<Rightarrow> Inl e
                 | Inr srvRecords \<Rightarrow>
                     if length srvRecords = 0
                     then Inl (DnsServerResponseError ''No valid answer found'')
                     else if length (filter (\<lambda>record. target record = ''.'') srvRecords) = 1
                     then Inr None
                     else (case orderByPriorityAndWeight random 0 srvRecords of
                             Inl e \<Rightarrow> Inl e
                           | Inr (sortedServices, k) \<Rightarrow>
                               Inr (Some \<lparr> services = sortedServices,
                                           isDomainSecure = AD response \<rparr>))))"

definition queryNameOf :: "string \<Rightarrow> string \<Rightarrow> string \<Rightarrow> string" where
  "queryNameOf domainName service protocol =
     ''_'' @ service @ ''._'' @ protocol @ ''.'' @ domainName"

definition dnsQueryUrl :: "string \<Rightarrow> string" where
  "dnsQueryUrl queryName =
     ''https://cloudflare-dns.com/dns-query?name='' @ queryName @ ''&type=SRV''"

definition locateServices ::
  "(string \<Rightarrow> QueryResponse AxiosOutcome) \<Rightarrow> (nat \<Rightarrow> rat) \<Rightarrow>
   string \<Rightarrow> string \<Rightarrow> string \<Rightarrow> error + SrvResolverResponse option" where
  "locateServices network random domainName service protocol =
     (let queryName = queryNameOf domainName service protocol in
      case request_get network (dnsQueryUrl queryName) of
        Inl e \<Rightarrow> Inl e
      | Inr response \<Rightarrow> processResponse random queryName response)"

subsection \<open>Values of the runtime\<close>

text \<open>
  The capability document is parsed JSON, and the code inspects it dynamically
  (\<^verbatim>\<open>typeof\<close>, \<^verbatim>\<open>!==\<close>, \<^verbatim>\<open>=== undefined\<close>, a computed member access). A value is
  therefore a JSON value, \<^verbatim>\<open>undefined\<close>, or a built-in function or object of the runtime
  (named by the property under which it is found). An object is the list of its own
  properties; a parsed JSON object has no key twice.
\<close>

datatype jsvalue =
    JUndefined
  | JNull
  | JBoolean bool
  | JNumber int
  | JString string
  | JArray "jsvalue list"
  | JObject "(string \<times> jsvalue) list"
  | JBuiltin string

fun typeof :: "jsvalue \<Rightarrow> string" where
  "typeof JUndefined = ''undefined''"
| "typeof JNull = ''object''"
| "typeof (JBoolean b) = ''boolean''"
| "typeof (JNumber n) = ''number''"
| "typeof (JString s) = ''string''"
| "typeof (JArray xs) = ''object''"
| "typeof (JObject kvs) = ''object''"
| "typeof (JBuiltin n) = (if n = ''__proto__'' then ''object'' else ''function'')"

text \<open>The properties that every object inherits from \<^verbatim>\<open>Object.prototype\<close>, and those that
  an array inherits from \<^verbatim>\<open>Array.prototype\<close> (ECMAScript 2019).\<close>

definition Object_prototype_properties :: "string list" where
  "Object_prototype_properties =
     [''constructor'', ''hasOwnProperty'', ''isPrototypeOf'', ''propertyIsEnumerable'',
      ''toLocaleString'', ''toString'', ''valueOf'', ''__proto__'', ''__defineGetter__'',
      ''__defineSetter__'', ''__lookupGetter__'', ''__lookupSetter__'']"

definition Array_prototype_properties :: "string list" where
  "Array_prototype_properties =
     [''concat'', ''copyWithin'', ''entries'', ''every'', ''fill'', ''filter'', ''find'',
      ''findIndex'', ''flat'', ''flatMap'', ''forEach'', ''includes'', ''indexOf'', ''join'',
      ''keys'', ''lastIndexOf'', ''map'', ''pop'', ''push'', ''reduce'', ''reduceRight'',
      ''reverse'', ''shift'', ''slice'', ''some'', ''sort'', ''splice'', ''unshift'', ''values'']"

definition inheritedProperty :: "string list \<Rightarrow> string \<Rightarrow> jsvalue" where
  "inheritedProperty names k = (if k \<in> set names then JBuiltin k else JUndefined)"

text \<open>The decimal notation of a number, as a template literal prints an integer.\<close>

function natToString :: "nat \<Rightarrow> string" where
  "natToString n =
     (if n < 10 then [''0123456789'' ! n]
      else natToString (n div 10) @ [''0123456789'' ! (n mod 10)])"
  by pat_completeness auto

termination
  by (relation "measure id") auto

declare natToString.simps [simp del]

definition numberToString :: "int \<Rightarrow> string" where
  "numberToString n = (if n < 0 then CHR ''-'' # natToString (nat (- n)) else natToString (nat n))"

text \<open>\<^verbatim>\<open>value[key]\<close>. Reading a property of \<^verbatim>\<open>undefined\<close> or \<^verbatim>\<open>null\<close> is a TypeError. An
  object gives its own property, else the inherited one, else \<^verbatim>\<open>undefined\<close>; an array has
  its indices and \<^verbatim>\<open>length\<close> as own properties. The only receiver in the code is the value
  that \<^verbatim>\<open>getCapabilitiesForDomain\<close> returns, whose \<^verbatim>\<open>typeof\<close> is \<^verbatim>\<open>'object'\<close>; for the
  other values the wrapper objects are not modelled and the read gives \<^verbatim>\<open>undefined\<close>.\<close>

fun getProperty :: "jsvalue \<Rightarrow> string \<Rightarrow> error + jsvalue" where
  "getProperty JUndefined k = Inl TypeError"
| "getProperty JNull k = Inl TypeError"
| "getProperty (JObject kvs) k =
     Inr (case map_of kvs k of
            Some v \<Rightarrow> v
          | None \<Rightarrow> inheritedProperty Object_prototype_properties k)"
| "getProperty (JArray xs) k =
     Inr (if k = ''length'' then JNumber (int (length xs))
          else case map_of (zip (map natToString [0..<length xs]) xs) k of
                 Some v \<Rightarrow> v
               | None \<Rightarrow>
                   inheritedProperty (Array_prototype_properties @ Object_prototype_properties) k)"
| "getProperty v k = Inr JUndefined"

subsection \<open>\<^verbatim>\<open>CapabilityResolver\<close> (capability-resolver.ts)\<close>

definition BSVALIAS_VERSION :: string where
  "BSVALIAS_VERSION = ''1.0''"

text \<open>The response of the well-known endpoint: an object of which the code reads two
  members, each of any type (\<open>JUndefined\<close> when the member is missing).\<close>

record CapabilitiesResponse =
  bsvalias :: jsvalue
  capabilities :: jsvalue

type_synonym SrvResolver = "string \<Rightarrow> string \<Rightarrow> string \<Rightarrow> error + SrvResolverResponse option"

definition domainsAreEqual :: "string \<Rightarrow> string \<Rightarrow> bool" where
  "domainsAreEqual domainName1 domainName2 \<longleftrightarrow>
     stripTrailingDot domainName1 = stripTrailingDot domainName2"

text \<open>\<^verbatim>\<open>srvResolverResponse.services[0]\<close> of an empty list is \<^verbatim>\<open>undefined\<close>, and the read of
  its \<^verbatim>\<open>host\<close> is a TypeError.\<close>

definition getWellKnownBaseUrl :: "SrvResolver \<Rightarrow> string \<Rightarrow> error + string" where
  "getWellKnownBaseUrl srvResolver domainName =
     (case srvResolver domainName ''bsvalias'' ''tcp'' of
        Inl e \<Rightarrow> Inl e
      | Inr srvResolverResponse \<Rightarrow>
          (case (case srvResolverResponse of
                   None \<Rightarrow> Inr (domainName, 443, False)
                 | Some r \<Rightarrow>
                     (case services r of
                        [] \<Rightarrow> Inl TypeError
                      | service # others \<Rightarrow> Inr (host service, port service, isDomainSecure r))) of
             Inl e \<Rightarrow> Inl e
           | Inr (targetDomainName, targetPort, isSecure) \<Rightarrow>
               let isSecure' =
                     (if domainsAreEqual targetDomainName domainName \<or>
                         domainsAreEqual targetDomainName (''www.'' @ domainName)
                      then True else isSecure)
               in if \<not> isSecure'
                  then Inl (DNSSECNotEnabledError
                             (''DNSSEC not enabled on domain '' @ targetDomainName))
                  else Inr (''https://'' @ targetDomainName @ '':'' @ numberToString targetPort @
                            ''/.well-known/bsvalias'')))"

text \<open>The checks of the document, after the request.\<close>

definition checkCapabilitiesResponse :: "CapabilitiesResponse \<Rightarrow> error + jsvalue" where
  "checkCapabilitiesResponse response =
     (if typeof (capabilities response) \<noteq> ''object''
      then Inl (BsvAliasUnexpectedServerResponseError ''No capabilities returned'')
      else if bsvalias response \<noteq> JString BSVALIAS_VERSION
      then Inl (BsvAliasUnexpectedServerResponseError ''Unsupported BSV alias version'')
      else Inr (capabilities response))"

text \<open>\<^verbatim>\<open>getCapabilitiesForDomain\<close> returns its result together with the URLs that it has
  requested from the well-known endpoint.\<close>

definition getCapabilitiesForDomain ::
  "SrvResolver \<Rightarrow> (string \<Rightarrow> CapabilitiesResponse AxiosOutcome) \<Rightarrow> string \<Rightarrow>
   (error + jsvalue) \<times> string list" where
  "getCapabilitiesForDomain srvResolver network domainName =
     (case getWellKnownBaseUrl srvResolver domainName of
        Inl e \<Rightarrow> (Inl e, [])
      | Inr wellKnownBsvAliasUrl \<Rightarrow>
          ((case request_get network wellKnownBsvAliasUrl of
              Inl e \<Rightarrow> Inl e
            | Inr response \<Rightarrow> checkCapabilitiesResponse response),
           [wellKnownBsvAliasUrl]))"

definition isCapabilitySupportedForDomain ::
  "SrvResolver \<Rightarrow> (string \<Rightarrow> CapabilitiesResponse AxiosOutcome) \<Rightarrow> string \<Rightarrow> string \<Rightarrow>
   (error + bool) \<times> string list" where
  "isCapabilitySupportedForDomain srvResolver network capabilityCode domainName =
     (case getCapabilitiesForDomain srvResolver network domainName of
        (Inl e, requested) \<Rightarrow> (Inl e, requested)
      | (Inr capabilities', requested) \<Rightarrow>
          (case getProperty capabilities' capabilityCode of
             Inl e \<Rightarrow> (Inl e, requested)
           | Inr v \<Rightarrow> (Inr (if v = JUndefined then False else True), requested)))"

section \<open>Definitions that follow the wording of the specification, and examples\<close>

text \<open>
  The definitions of this section are not translated from the source. They state, in the
  words of the specification, what the loops of the source are compared with, and they name
  the example inputs (those of the tests of the repository) at which the theorems are
  evaluated.
\<close>

subsection \<open>The weighted draw within one band\<close>

text \<open>``The running cumulative sum of weights across the remaining records in their current
  relative order'': entry \<open>i\<close> is the sum of the first \<open>i + 1\<close> weights.\<close>

definition cumulativeSums :: "SrvRecord list \<Rightarrow> int list" where
  "cumulativeSums recs = map (\<lambda>i. sum_list (map weight (take (Suc i) recs))) [0..<length recs]"

definition totalWeight :: "SrvRecord list \<Rightarrow> int" where
  "totalWeight recs = sum_list (map weight recs)"

text \<open>``Draw one random integer'': draw \<open>k\<close> of the sequence, scaled by the total weight and
  floored.\<close>

definition drawNumber :: "(nat \<Rightarrow> rat) \<Rightarrow> nat \<Rightarrow> SrvRecord list \<Rightarrow> int" where
  "drawNumber random k recs = \<lfloor>random k * of_int (totalWeight recs)\<rfloor>"

text \<open>``Select the first record whose cumulative sum is at least the draw'': the number of
  cumulative sums below the draw that come first, when that is an index of the list.\<close>

definition selectIndex :: "int \<Rightarrow> SrvRecord list \<Rightarrow> nat option" where
  "selectIndex d recs =
     (let i = length (takeWhile (\<lambda>s. s < d) (cumulativeSums recs))
      in if i < length recs then Some i else None)"

text \<open>The service that a record stands for.\<close>

definition serviceOf :: "SrvRecord \<Rightarrow> DomainService" where
  "serviceOf r = \<lparr> host = target r, port = srv_port r \<rparr>"

subsection \<open>Priority bands\<close>

text \<open>The records that are kept, the priorities that occur among records in strictly
  ascending order, the band of one priority (in the order of the answers), and ``the
  concatenation of each band's weighted ordering'', the draws being consumed band after
  band.\<close>

definition nonSentinel :: "SrvRecord list \<Rightarrow> SrvRecord list" where
  "nonSentinel srvRecords = filter (\<lambda>r. target r \<noteq> ''.'') srvRecords"

definition bandPriorities :: "SrvRecord list \<Rightarrow> int list" where
  "bandPriorities recs = sort (remdups (map priority recs))"

definition band :: "int \<Rightarrow> SrvRecord list \<Rightarrow> SrvRecord list" where
  "band p recs = filter (\<lambda>r. priority r = p) recs"

fun concatBands ::
  "(nat \<Rightarrow> rat) \<Rightarrow> nat \<Rightarrow> int list \<Rightarrow> SrvRecord list \<Rightarrow> error + (DomainService list \<times> nat)" where
  "concatBands random k [] recs = Inr ([], k)"
| "concatBands random k (p # ps) recs =
     (case orderResourceListByWeight random k (band p recs) of
        Inl e \<Rightarrow> Inl e
      | Inr (ordered, k') \<Rightarrow>
          (case concatBands random k' ps recs of
             Inl e \<Rightarrow> Inl e
           | Inr (rest, k'') \<Rightarrow> Inr (ordered @ rest, k'')))"

subsection \<open>The response of the resolver and the target of a record\<close>

text \<open>A response that passes the checks of status and question; the answers that echo the
  question; the target with one final dot removed and the empty result replaced by the
  sentinel; the well-known URL of a host and port.\<close>

definition validHeader :: "string \<Rightarrow> QueryResponse \<Rightarrow> bool" where
  "validHeader queryName response \<longleftrightarrow>
     Status response = NOERROR \<and>
     (case Question response of
        Some [question] \<Rightarrow> question_name question = queryName \<and> question_type question = SRV
      | _ \<Rightarrow> False)"

definition matchingAnswers :: "string \<Rightarrow> ResourceRecordAnswer list \<Rightarrow> ResourceRecordAnswer list" where
  "matchingAnswers queryName answers =
     filter (\<lambda>answer. answer_name answer = queryName \<and> answer_type answer = SRV) answers"

definition normaliseTarget :: "string \<Rightarrow> string" where
  "normaliseTarget t = (if stripTrailingDot t = [] then ''.'' else stripTrailingDot t)"

definition wellKnownUrl :: "string \<Rightarrow> int \<Rightarrow> string" where
  "wellKnownUrl h p = ''https://'' @ h @ '':'' @ numberToString p @ ''/.well-known/bsvalias''"

subsection \<open>Auxiliary functions of the proofs\<close>

text \<open>A record with its running sum cleared; the last call of the weighted ordering after
  the loop over the sorted records; a list of services put in front of a result.\<close>

definition resetSum :: "SrvRecordWithRunningSum \<Rightarrow> SrvRecordWithRunningSum" where
  "resetSum r = r\<lparr>runningSum := 0\<rparr>"

definition finish ::
  "(nat \<Rightarrow> rat) \<Rightarrow> error + (int option \<times> SrvRecord list \<times> DomainService list \<times> nat) \<Rightarrow>
   error + (DomainService list \<times> nat)" where
  "finish random res =
     (case res of
        Inl e \<Rightarrow> Inl e
      | Inr (previousPriority', recordsToProcess, sortedServices, k') \<Rightarrow>
          (case orderResourceListByWeight random k' recordsToProcess of
             Inl e \<Rightarrow> Inl e
           | Inr (ordered, k'') \<Rightarrow> Inr (sortedServices @ ordered, k'')))"

definition prepend ::
  "DomainService list \<Rightarrow> error + (DomainService list \<times> nat) \<Rightarrow> error + (DomainService list \<times> nat)" where
  "prepend acc res = (case res of Inl e \<Rightarrow> Inl e | Inr (out, k) \<Rightarrow> Inr (acc @ out, k))"

subsection \<open>Example inputs\<close>

text \<open>The records, answers, responses and documents of the tests of the repository
  (\<^verbatim>\<open>doh-srv-resolver.test.ts\<close>, \<^verbatim>\<open>capability-resolver.test.ts\<close>).\<close>

definition exampleRecord :: "int \<Rightarrow> int \<Rightarrow> string \<Rightarrow> SrvRecord" where
  "exampleRecord p w t =
     \<lparr> srv_name = ''_bsvalias._tcp.example.com'', srv_TTL = 299, priority = p, weight = w,
       srv_port = 443, target = t \<rparr>"

definition exampleService :: "string \<Rightarrow> DomainService" where
  "exampleService h = \<lparr> host = h, port = 443 \<rparr>"

definition exampleAnswer :: "string \<Rightarrow> ResourceRecordAnswer" where
  "exampleAnswer d =
     \<lparr> answer_name = ''_bsvalias._tcp.example.com'', answer_type = 33, answer_TTL = 299,
       answer_data = d \<rparr>"

definition exampleQuestion :: "string \<Rightarrow> int \<Rightarrow> QueryQuestion" where
  "exampleQuestion n t = \<lparr> question_name = n, question_type = t \<rparr>"

definition exampleQuery ::
  "int \<Rightarrow> QueryQuestion list option \<Rightarrow> ResourceRecordAnswer list option \<Rightarrow> QueryResponse" where
  "exampleQuery status questions answers =
     \<lparr> Status = status, AD = True, Question = questions, Answer = answers \<rparr>"

definition exampleResponse :: "ResourceRecordAnswer list \<Rightarrow> QueryResponse" where
  "exampleResponse answers =
     \<lparr> Status = 0, AD = True,
       Question = Some [\<lparr> question_name = ''_bsvalias._tcp.example.com'', question_type = 33 \<rparr>],
       Answer = Some answers \<rparr>"

definition exampleWeightedAnswers :: "ResourceRecordAnswer list" where
  "exampleWeightedAnswers =
     [exampleAnswer ''10 3 443 target1.example.com'',
      exampleAnswer ''10 7 443 target2.example.com'',
      exampleAnswer ''10 10 443 target3.example.com'',
      exampleAnswer ''7 10 443 target4.example.com'']"

definition exampleWeightedRecords :: "SrvRecord list" where
  "exampleWeightedRecords =
     [exampleRecord 10 3 ''target1.example.com'', exampleRecord 10 7 ''target2.example.com'',
      exampleRecord 10 10 ''target3.example.com'', exampleRecord 7 10 ''target4.example.com'']"

definition exampleDocument :: "jsvalue \<Rightarrow> jsvalue \<Rightarrow> string \<Rightarrow> CapabilitiesResponse AxiosOutcome" where
  "exampleDocument version caps url = Resolves \<lparr> bsvalias = version, capabilities = caps \<rparr>"

definition exampleCapabilities :: jsvalue where
  "exampleCapabilities =
     JObject [(''pki'', JString ''https://bsvalias.example.org/id''),
              (''paymentDestination'', JString ''https://bsvalias.example.org/payment-destination'')]"

definition exampleResolver :: "string \<Rightarrow> int \<Rightarrow> bool \<Rightarrow> SrvResolver" where
  "exampleResolver h p secure domainName service protocol =
     Inr (Some \<lparr> services = [\<lparr> host = h, port = p \<rparr>], isDomainSecure = secure \<rparr>)"

section \<open>Properties\<close>

subsection \<open>The weighted draw\<close>

lemma assignRunningSums_snd:
  "snd (assignRunningSums acc rs) = acc + sum_list (map weight rs)"
  by (induction rs arbitrary: acc) (simp_all add: Let_def case_prod_beta)

lemma assignRunningSums_nth:
  "i < length rs \<Longrightarrow>
   fst (assignRunningSums acc rs) ! i =
     (rs ! i)\<lparr>runningSum := acc + sum_list (map weight (take (Suc i) rs))\<rparr>"
proof (induction rs arbitrary: acc i)
  case Nil
  then show ?case by simp
next
  case (Cons r rs)
  show ?case
  proof (cases i)
    case 0
    then show ?thesis by (simp add: Let_def case_prod_beta)
  next
    case (Suc j)
    with Cons.prems have "j < length rs" by simp
    from Cons.IH[OF this, of "acc + weight r"] Suc show ?thesis
      by (simp add: Let_def case_prod_beta add.assoc)
  qed
qed

lemma assignRunningSums_reset:
  "assignRunningSums acc (map resetSum rs) = assignRunningSums acc rs"
  by (induction rs arbitrary: acc) (simp_all add: Let_def case_prod_beta resetSum_def)

lemma toService_reset: "toService (resetSum r) = toService r"
  by (simp add: toService_def resetSum_def)

lemma orderLoop_reset:
  "orderLoop random k (map resetSum rs) acc = orderLoop random k rs acc"
  by (subst orderLoop.simps, subst (2) orderLoop.simps)
     (auto simp: assignRunningSums_reset toService_reset hd_map length_Suc_conv)

lemma orderLoop_step:
  assumes "length rs \<noteq> 1"
  shows "orderLoop random k rs acc =
     (case pickNext \<lfloor>random k * of_int (snd (assignRunningSums 0 rs))\<rfloor>
             (fst (assignRunningSums 0 rs)) (None, []) of
        (None, new) \<Rightarrow> Inl TypeError
      | (Some r, new) \<Rightarrow> orderLoop random (Suc k) new (acc @ [toService r]))"
  using assms by (subst orderLoop.simps) (simp add: case_prod_beta Let_def)

lemma orderLoop_acc:
  "orderLoop random k rs acc =
     (case orderLoop random k rs [] of
        Inl e \<Rightarrow> Inl e
      | Inr (out, k') \<Rightarrow> Inr (acc @ out, k'))"
proof (induction "length rs" arbitrary: rs k acc rule: less_induct)
  case less
  show ?case
  proof (cases "length rs = 1")
    case True
    then show ?thesis by (simp add: orderLoop.simps)
  next
    case False
    let ?summed = "fst (assignRunningSums 0 rs)"
    let ?d = "\<lfloor>random k * of_int (snd (assignRunningSums 0 rs))\<rfloor>"
    obtain nxt new where p: "pickNext ?d ?summed (None, []) = (nxt, new)"
      by (cases "pickNext ?d ?summed (None, [])")
    show ?thesis
    proof (cases nxt)
      case None
      with False p show ?thesis by (simp add: orderLoop_step)
    next
      case (Some r)
      with p have "Suc (length new) = length ?summed" using pickNext_length by blast
      then have lt: "length new < length rs" by (simp add: assignRunningSums_length)
      have 1: "orderLoop random k rs acc = orderLoop random (Suc k) new (acc @ [toService r])"
        using False p Some by (simp add: orderLoop_step)
      have 2: "orderLoop random k rs [] = orderLoop random (Suc k) new [toService r]"
        using False p Some by (simp add: orderLoop_step)
      show ?thesis
        unfolding 1 2 less[OF lt, of "Suc k" "acc @ [toService r]"] less[OF lt, of "Suc k" "[toService r]"]
        by (simp split: sum.splits prod.splits)
    qed
  qed
qed

lemma selectIndex_Some_iff:
  "selectIndex d recs = Some i \<longleftrightarrow>
     i < length recs \<and> d \<le> cumulativeSums recs ! i \<and> (\<forall>j<i. cumulativeSums recs ! j < d)"
proof -
  let ?cs = "cumulativeSums recs"
  let ?P = "\<lambda>s. s < d"
  have len: "length ?cs = length recs" by (simp add: cumulativeSums_def)
  show ?thesis
  proof
    assume "selectIndex d recs = Some i"
    then have i: "i = length (takeWhile ?P ?cs)" and lt: "i < length recs"
      by (auto simp: selectIndex_def Let_def split: if_splits)
    from lt len i have "\<not> ?P (?cs ! i)"
      using nth_length_takeWhile[of ?P ?cs] by simp
    moreover have "\<forall>j<i. ?P (?cs ! j)"
      using i by (metis nth_mem set_takeWhileD takeWhile_nth)
    ultimately show "i < length recs \<and> d \<le> ?cs ! i \<and> (\<forall>j<i. ?cs ! j < d)"
      using lt by auto
  next
    assume a: "i < length recs \<and> d \<le> ?cs ! i \<and> (\<forall>j<i. ?cs ! j < d)"
    then have "takeWhile ?P ?cs = take i ?cs"
      using len by (intro takeWhile_eq_take_P_nth) auto
    then have "length (takeWhile ?P ?cs) = i"
      using a len by simp
    with a show "selectIndex d recs = Some i" by (simp add: selectIndex_def)
  qed
qed


lemma summed_runningSum:
  "map runningSum (fst (assignRunningSums 0 (map withRunningSum recs))) = cumulativeSums recs"
  by (rule nth_equalityI)
     (simp_all add: assignRunningSums_length cumulativeSums_def assignRunningSums_nth
        take_map withRunningSum_def comp_def)

lemma summed_total:
  "snd (assignRunningSums 0 (map withRunningSum recs)) = totalWeight recs"
  by (simp add: assignRunningSums_snd totalWeight_def withRunningSum_def comp_def)

lemma summed_reset:
  "map resetSum (fst (assignRunningSums 0 (map withRunningSum recs))) = map withRunningSum recs"
  by (rule nth_equalityI)
     (simp_all add: assignRunningSums_length assignRunningSums_nth resetSum_def withRunningSum_def)

lemma summed_toService:
  "i < length recs \<Longrightarrow>
   toService (fst (assignRunningSums 0 (map withRunningSum recs)) ! i) = serviceOf (recs ! i)"
  by (simp add: assignRunningSums_nth toService_def serviceOf_def withRunningSum_def)

lemma orderResourceListByWeight_nonempty:
  "recs \<noteq> [] \<Longrightarrow>
   orderResourceListByWeight random k recs = orderLoop random k (map withRunningSum recs) []"
  by (simp add: orderResourceListByWeight_def)

lemma orderResourceListByWeight_step:
  assumes "2 \<le> length recs"
  shows "orderResourceListByWeight random k recs =
     (case selectIndex (drawNumber random k recs) recs of
        None \<Rightarrow> Inl TypeError
      | Some i \<Rightarrow>
          (case orderResourceListByWeight random (Suc k) (take i recs @ drop (Suc i) recs) of
             Inl e \<Rightarrow> Inl e
           | Inr (rest, k') \<Rightarrow> Inr (serviceOf (recs ! i) # rest, k')))"
proof -
  let ?rs = "map withRunningSum recs"
  let ?summed = "fst (assignRunningSums 0 ?rs)"
  let ?d = "drawNumber random k recs"
  let ?P = "\<lambda>r. \<not> ?d \<le> runningSum r"
  let ?i = "length (takeWhile ?P ?summed)"
  have len: "length ?summed = length recs" by (simp add: assignRunningSums_length)
  from assms have ne: "recs \<noteq> []" and n1: "length ?rs \<noteq> 1" by auto
  have start: "orderResourceListByWeight random k recs =
      (case pickNext ?d ?summed (None, []) of
         (None, new) \<Rightarrow> Inl TypeError
       | (Some r, new) \<Rightarrow> orderLoop random (Suc k) new ([] @ [toService r]))"
    unfolding orderResourceListByWeight_nonempty[OF ne] orderLoop_step[OF n1]
    by (simp add: summed_total drawNumber_def)
  have c: "(\<lambda>s. s < ?d) \<circ> runningSum = ?P" by (auto simp: fun_eq_iff)
  have "takeWhile (\<lambda>s. s < ?d) (map runningSum ?summed) = map runningSum (takeWhile ?P ?summed)"
    unfolding takeWhile_map c ..
  then have i_eq: "length (takeWhile (\<lambda>s. s < ?d) (cumulativeSums recs)) = ?i"
    by (simp add: summed_runningSum)
  show ?thesis
  proof (cases "?i < length recs")
    case True
    then have sel: "selectIndex ?d recs = Some ?i" by (simp add: selectIndex_def i_eq)
    have "dropWhile ?P ?summed = drop ?i ?summed" by (rule dropWhile_eq_drop)
    also have "\<dots> = ?summed ! ?i # drop (Suc ?i) ?summed"
      using True len by (simp add: Cons_nth_drop_Suc)
    finally have d: "dropWhile ?P ?summed = ?summed ! ?i # drop (Suc ?i) ?summed" .
    have t: "takeWhile ?P ?summed = take ?i ?summed" by (rule takeWhile_eq_take)
    let ?new = "take ?i ?summed @ drop (Suc ?i) ?summed"
    have pick: "pickNext ?d ?summed (None, []) = (Some (?summed ! ?i), ?new)"
      unfolding pickNext_None d using t by simp
    have "map resetSum ?new = take ?i (map resetSum ?summed) @ drop (Suc ?i) (map resetSum ?summed)"
      by (simp add: take_map drop_map)
    also have "\<dots> = map withRunningSum (take ?i recs @ drop (Suc ?i) recs)"
      by (simp add: summed_reset take_map drop_map)
    finally have r: "map resetSum ?new = map withRunningSum (take ?i recs @ drop (Suc ?i) recs)" .
    have ne': "take ?i recs @ drop (Suc ?i) recs \<noteq> []"
      using assms True by (cases "?i") auto
    have rest: "orderLoop random (Suc k) ?new [] =
        orderResourceListByWeight random (Suc k) (take ?i recs @ drop (Suc ?i) recs)"
      unfolding orderResourceListByWeight_nonempty[OF ne'] r[symmetric]
      by (rule orderLoop_reset[symmetric])
    have ts: "toService (?summed ! ?i) = serviceOf (recs ! ?i)"
      by (rule summed_toService[OF True])
    have acc: "orderLoop random (Suc k) ?new [serviceOf (recs ! ?i)] =
        (case orderResourceListByWeight random (Suc k) (take ?i recs @ drop (Suc ?i) recs) of
           Inl e \<Rightarrow> Inl e
         | Inr (rest, k') \<Rightarrow> Inr (serviceOf (recs ! ?i) # rest, k'))"
      unfolding orderLoop_acc[of random "Suc k" ?new "[serviceOf (recs ! ?i)]"] rest
      by (simp split: sum.splits prod.splits)
    show ?thesis
      unfolding start pick sel by (simp add: ts acc)
  next
    case False
    then have sel: "selectIndex ?d recs = None" by (simp add: selectIndex_def i_eq)
    from False len have "?i = length ?summed"
      using length_takeWhile_le[of ?P ?summed] by simp
    then have "takeWhile ?P ?summed = ?summed"
      by (metis takeWhile_eq_take take_all le_refl)
    then have dn: "dropWhile ?P ?summed = []"
      by (metis append_self_conv takeWhile_dropWhile_id)
    have pick: "pickNext ?d ?summed (None, []) = (None, ?summed)"
      unfolding pickNext_None dn by simp
    show ?thesis unfolding start pick sel by simp
  qed
qed

lemma orderResourceListByWeight_single:
  "orderResourceListByWeight random k [r] = Inr ([serviceOf r], k)"
  by (simp add: orderResourceListByWeight_def orderLoop.simps toService_def serviceOf_def
        withRunningSum_def)







subsection \<open>Priority bands and determinism\<close>

lemma bandPriorities_strict: "sorted_wrt (<) (bandPriorities recs)"
  by (simp add: bandPriorities_def strict_sorted_iff)

lemma bandPriorities_set: "set (bandPriorities recs) = priority ` set recs"
  by (simp add: bandPriorities_def)

lemma bandPriorities_unique:
  "sorted_wrt (<) ps \<Longrightarrow> set ps = priority ` set recs \<Longrightarrow> bandPriorities recs = ps"
  using bandPriorities_strict bandPriorities_set strict_sorted_equal by metis

lemma concatBands_cong:
  "(\<And>p. p \<in> set ps \<Longrightarrow> band p recs = band p recs') \<Longrightarrow>
   concatBands random k ps recs = concatBands random k ps recs'"
  by (induction ps arbitrary: k) (simp_all split: sum.splits prod.splits)

lemma prepend_prepend: "prepend a (prepend b r) = prepend (a @ b) r"
  by (simp add: prepend_def split: sum.splits prod.splits)

lemma concatBands_Cons:
  "concatBands random k (p # ps) recs =
     (case orderResourceListByWeight random k (band p recs) of
        Inl e \<Rightarrow> Inl e
      | Inr (ordered, k') \<Rightarrow> prepend ordered (concatBands random k' ps recs))"
  by (simp add: prepend_def split: sum.splits prod.splits)

lemma forEach_sorted:
  assumes "sorted (map priority xs)"
    and "\<forall>r\<in>set cur. priority r = p"
    and "\<forall>r\<in>set xs. p \<le> priority r"
  shows "finish random (forEachSrvRecord random xs (Some p, cur, out, k)) =
         prepend out (concatBands random k (p # bandPriorities (filter (\<lambda>r. p < priority r) xs)) (cur @ xs))"
  using assms
proof (induction xs arbitrary: p cur out k)
  case Nil
  then have "band p cur = cur" by (simp add: band_def)
  then show ?case
    by (simp add: finish_def prepend_def bandPriorities_def split: sum.splits prod.splits)
next
  case (Cons x xs)
  from Cons.prems have sx: "sorted (map priority xs)" and xle: "\<forall>r\<in>set xs. priority x \<le> priority r"
    by auto
  show ?case
  proof (cases "priority x = p")
    case True
    have c: "\<forall>r\<in>set (cur @ [x]). priority r = p" using Cons.prems True by simp
    have g: "\<forall>r\<in>set xs. p \<le> priority r" using Cons.prems by simp
    show ?thesis
      using Cons.IH[OF sx c g, of out k] True by simp
  next
    case False
    with Cons.prems have lt: "p < priority x" by auto
    let ?q = "priority x"
    have bp: "band p (cur @ x # xs) = cur"
      using Cons.prems lt xle by (auto simp: band_def filter_id_conv filter_empty_conv)
    have ps: "bandPriorities (filter (\<lambda>r. p < priority r) (x # xs)) =
              ?q # bandPriorities (filter (\<lambda>r. ?q < priority r) xs)"
    proof (rule bandPriorities_unique)
      show "sorted_wrt (<) (?q # bandPriorities (filter (\<lambda>r. ?q < priority r) xs))"
        using bandPriorities_strict[of "filter (\<lambda>r. ?q < priority r) xs"]
        by (auto simp: bandPriorities_set)
      show "set (?q # bandPriorities (filter (\<lambda>r. ?q < priority r) xs)) =
            priority ` set (filter (\<lambda>r. p < priority r) (x # xs))"
      proof -
        have "priority r = ?q \<or> ?q < priority r" if "r \<in> set xs" for r
          using xle that by (auto simp: order.order_iff_strict)
        then show ?thesis using lt by (auto simp: bandPriorities_set)
      qed
    qed
    have cg: "concatBands random k' (?q # bandPriorities (filter (\<lambda>r. ?q < priority r) xs)) (cur @ x # xs) =
              concatBands random k' (?q # bandPriorities (filter (\<lambda>r. ?q < priority r) xs)) ([x] @ xs)" for k'
    proof (rule concatBands_cong)
      fix p' assume "p' \<in> set (?q # bandPriorities (filter (\<lambda>r. ?q < priority r) xs))"
      then have "p < p'" using lt by (auto simp: bandPriorities_set)
      with Cons.prems(2) have "band p' cur = []" by (auto simp: band_def filter_empty_conv)
      then show "band p' (cur @ x # xs) = band p' ([x] @ xs)" by (simp add: band_def)
    qed
    have ih: "finish random (forEachSrvRecord random xs (Some ?q, [x], out', k')) =
          prepend out' (concatBands random k' (?q # bandPriorities (filter (\<lambda>r. ?q < priority r) xs)) ([x] @ xs))"
      for out' k'
      using Cons.IH[OF sx, of "[x]" ?q out' k'] xle by simp
    show ?thesis
    proof (cases "orderResourceListByWeight random k cur")
      case (Inl e)
      then show ?thesis using False bp
        by (simp add: finish_def prepend_def)
    next
      case (Inr ok)
      obtain ordered k' where ok: "ok = (ordered, k')" by (cases ok)
      have "finish random (forEachSrvRecord random (x # xs) (Some p, cur, out, k)) =
            finish random (forEachSrvRecord random xs (Some ?q, [x], out @ ordered, k'))"
        using False Inr ok by simp
      also have "\<dots> = prepend (out @ ordered)
          (concatBands random k' (?q # bandPriorities (filter (\<lambda>r. ?q < priority r) xs)) ([x] @ xs))"
        by (rule ih)
      also have "\<dots> = prepend out (concatBands random k
          (p # bandPriorities (filter (\<lambda>r. p < priority r) (x # xs))) (cur @ x # xs))"
      proof -
        let ?qs = "?q # bandPriorities (filter (\<lambda>r. ?q < priority r) xs)"
        have "concatBands random k (p # ?qs) (cur @ x # xs) =
              prepend ordered (concatBands random k' ?qs (cur @ x # xs))"
          by (simp only: concatBands_Cons[of random k p] bp Inr ok sum.case prod.case)
        then show ?thesis unfolding ps by (simp only: cg prepend_prepend)
      qed
      finally show ?thesis .
    qed
  qed
qed

lemma orderResourceListByWeight_Nil: "orderResourceListByWeight random k [] = Inr ([], k)"
  by (simp add: orderResourceListByWeight_def)

lemma band_sort_key: "band p (sort_key priority recs) = band p recs"
  unfolding band_def by (rule sort_key_stable)

lemma bandPriorities_set_cong:
  "set recs = set recs' \<Longrightarrow> bandPriorities recs = bandPriorities recs'"
  by (rule bandPriorities_unique) (simp_all add: bandPriorities_strict bandPriorities_set)

lemma orderByPriorityAndWeight_bands:
  "orderByPriorityAndWeight random k srvRecords =
     concatBands random k (bandPriorities (nonSentinel srvRecords)) (nonSentinel srvRecords)"
proof -
  let ?ns = "nonSentinel srvRecords"
  let ?xs = "sort_key priority ?ns"
  have unf: "orderByPriorityAndWeight random k srvRecords =
      finish random (forEachSrvRecord random ?xs
        (if length ?xs > 0 then Some (priority (hd ?xs)) else None, [], [], k))"
    by (simp add: orderByPriorityAndWeight_def finish_def nonSentinel_def Let_def)
  have bp: "bandPriorities ?xs = bandPriorities ?ns"
    by (rule bandPriorities_set_cong) simp
  have cb: "concatBands random k ps ?xs = concatBands random k ps ?ns" for ps
    by (rule concatBands_cong) (rule band_sort_key)
  show ?thesis
  proof (cases ?xs)
    case Nil
    then have "?ns = []" by (metis length_sort list.size(3) length_0_conv)
    with Nil show ?thesis
      unfolding unf
      by (simp add: finish_def orderResourceListByWeight_Nil bandPriorities_def)
  next
    case (Cons x xs')
    let ?p = "priority x"
    have s: "sorted (map priority ?xs)" by (rule sorted_sort_key)
    with Cons have ge: "\<forall>r\<in>set ?xs. ?p \<le> priority r" by auto
    have ps: "?p # bandPriorities (filter (\<lambda>r. ?p < priority r) ?xs) = bandPriorities ?xs"
    proof (rule bandPriorities_unique[symmetric])
      show "sorted_wrt (<) (?p # bandPriorities (filter (\<lambda>r. ?p < priority r) ?xs))"
        using bandPriorities_strict[of "filter (\<lambda>r. ?p < priority r) ?xs"]
        by (auto simp: bandPriorities_set)
      have "priority r = ?p \<or> ?p < priority r" if "r \<in> set ?xs" for r
        using ge that by (auto simp: order.order_iff_strict)
      moreover have "x \<in> set ?xs" using Cons by simp
      ultimately show "set (?p # bandPriorities (filter (\<lambda>r. ?p < priority r) ?xs)) =
          priority ` set ?xs"
        by (auto simp: bandPriorities_set)
    qed
    have "orderByPriorityAndWeight random k srvRecords =
        finish random (forEachSrvRecord random ?xs (Some ?p, [], [], k))"
      unfolding unf using Cons by simp
    also have "\<dots> = prepend [] (concatBands random k
        (?p # bandPriorities (filter (\<lambda>r. ?p < priority r) ?xs)) ([] @ ?xs))"
      using s ge by (intro forEach_sorted) auto
    also have "\<dots> = concatBands random k (bandPriorities ?xs) ?xs"
      unfolding ps by (simp add: prepend_def split: sum.splits prod.splits)
    finally show ?thesis unfolding bp cb .
  qed
qed

lemma orderResourceListByWeight_draws:
  assumes "orderResourceListByWeight random k recs = Inr (out, k')"
  shows "k \<le> k' \<and> mset out = mset (map serviceOf recs) \<and>
         ((\<forall>i. k \<le> i \<and> i < k' \<longrightarrow> random' i = random i) \<longrightarrow>
            orderResourceListByWeight random' k recs = Inr (out, k'))"
  using assms
proof (induction "length recs" arbitrary: recs k out k' rule: less_induct)
  case less
  consider "recs = []" | r where "recs = [r]" | "2 \<le> length recs"
    by (cases recs rule: list.exhaust; cases "tl recs") (auto simp: Suc_le_eq)
  then show ?case
  proof cases
    case 1
    with less.prems show ?thesis by (simp add: orderResourceListByWeight_Nil)
  next
    case 2
    with less.prems show ?thesis by (auto simp: orderResourceListByWeight_single)
  next
    case 3
    let ?d = "drawNumber random k recs"
    from less.prems obtain i rest where
      sel: "selectIndex ?d recs = Some i" and
      rest: "orderResourceListByWeight random (Suc k) (take i recs @ drop (Suc i) recs) = Inr (rest, k')" and
      out: "out = serviceOf (recs ! i) # rest"
      unfolding orderResourceListByWeight_step[OF 3]
      by (auto split: option.splits sum.splits prod.splits)
    from sel have i: "i < length recs" by (simp add: selectIndex_Some_iff)
    then have len: "length (take i recs @ drop (Suc i) recs) < length recs" by simp
    note ih = less.hyps[OF len rest]
    have recs: "recs = take i recs @ recs ! i # drop (Suc i) recs"
      using i by (rule id_take_nth_drop)
    have m: "mset (map serviceOf recs) =
        add_mset (serviceOf (recs ! i)) (mset (map serviceOf (take i recs @ drop (Suc i) recs)))"
      by (subst recs) simp
    have det: "orderResourceListByWeight random' k recs = Inr (out, k')"
      if a: "\<forall>j. k \<le> j \<and> j < k' \<longrightarrow> random' j = random j"
    proof -
      from ih have "Suc k \<le> k'" by simp
      with a have "random' k = random k" by simp
      then have d: "drawNumber random' k recs = ?d" by (simp add: drawNumber_def)
      from a ih have "orderResourceListByWeight random' (Suc k) (take i recs @ drop (Suc i) recs) =
          Inr (rest, k')" by simp
      then show ?thesis
        unfolding orderResourceListByWeight_step[OF 3] d sel out by simp
    qed
    from ih m out det show ?thesis by auto
  qed
qed

lemma concatBands_draws:
  assumes "concatBands random k ps recs = Inr (out, k')"
  shows "k \<le> k' \<and>
         ((\<forall>i. k \<le> i \<and> i < k' \<longrightarrow> random' i = random i) \<longrightarrow>
            concatBands random' k ps recs = Inr (out, k'))"
  using assms
proof (induction ps arbitrary: k out)
  case Nil
  then show ?case by simp
next
  case (Cons p ps)
  from Cons.prems obtain ordered k1 rest where
    b: "orderResourceListByWeight random k (band p recs) = Inr (ordered, k1)" and
    r: "concatBands random k1 ps recs = Inr (rest, k')" and
    out: "out = ordered @ rest"
    by (auto split: sum.splits prod.splits)
  note b' = orderResourceListByWeight_draws[OF b, of random']
  note r' = Cons.IH[OF r]
  show ?case
  proof (intro conjI impI)
    show "k \<le> k'" using b' r' by simp
    assume a: "\<forall>i. k \<le> i \<and> i < k' \<longrightarrow> random' i = random i"
    with b' r' have "orderResourceListByWeight random' k (band p recs) = Inr (ordered, k1)"
      by simp
    moreover from a b' r' have "concatBands random' k1 ps recs = Inr (rest, k')" by simp
    ultimately show "concatBands random' k (p # ps) recs = Inr (out, k')"
      using out by simp
  qed
qed

lemma processResponse_Some:
  assumes "processResponse random queryName response = Inr (Some res)"
  shows "\<exists>answers srvRecords k'.
           Answer response = Some answers \<and>
           mapDeserialise (filter (\<lambda>a. answer_name a = queryName \<and> answer_type a = SRV) answers) =
             Inr srvRecords \<and>
           orderByPriorityAndWeight random 0 srvRecords = Inr (services res, k') \<and>
           isDomainSecure res = AD response"
  using assms unfolding processResponse_def Let_def
  by (auto split: if_splits option.splits sum.splits prod.splits)

text \<open>
  Claim C3. The list of services that \<^verbatim>\<open>locateServices\<close> returns is the concatenation, over
  the priorities of the records whose target is not the sentinel taken in strictly ascending
  order, of the weighted ordering of the records of that priority (in the order of the
  answers); the ordering of one band is a rearrangement of that band; and a second run whose
  draws agree with the draws that the first run consumed returns the same list.
\<close>

theorem locateServices_priority_bands:
  "orderByPriorityAndWeight random k srvRecords =
     concatBands random k (bandPriorities (nonSentinel srvRecords)) (nonSentinel srvRecords) \<and>
   sorted_wrt (<) (bandPriorities (nonSentinel srvRecords)) \<and>
   set (bandPriorities (nonSentinel srvRecords)) = priority ` set (nonSentinel srvRecords) \<and>
   (orderResourceListByWeight random k recs = Inr (ordered, k1) \<longrightarrow>
      mset ordered = mset (map serviceOf recs)) \<and>
   (orderByPriorityAndWeight random k srvRecords = Inr (out, k') \<and>
    (\<forall>i. k \<le> i \<and> i < k' \<longrightarrow> random' i = random i) \<longrightarrow>
      orderByPriorityAndWeight random' k srvRecords = Inr (out, k')) \<and>
   (processResponse random queryName response = Inr (Some res) \<longrightarrow>
      (\<exists>answers records k'.
         Answer response = Some answers \<and>
         mapDeserialise (filter (\<lambda>a. answer_name a = queryName \<and> answer_type a = SRV) answers) =
           Inr records \<and>
         concatBands random 0 (bandPriorities (nonSentinel records)) (nonSentinel records) =
           Inr (services res, k') \<and>
         isDomainSecure res = AD response))"
proof (intro conjI impI)
  show "orderByPriorityAndWeight random k srvRecords =
     concatBands random k (bandPriorities (nonSentinel srvRecords)) (nonSentinel srvRecords)"
    by (rule orderByPriorityAndWeight_bands)
  show "sorted_wrt (<) (bandPriorities (nonSentinel srvRecords))"
    by (rule bandPriorities_strict)
  show "set (bandPriorities (nonSentinel srvRecords)) = priority ` set (nonSentinel srvRecords)"
    by (rule bandPriorities_set)
next
  assume "orderResourceListByWeight random k recs = Inr (ordered, k1)"
  from orderResourceListByWeight_draws[OF this, of random]
  show "mset ordered = mset (map serviceOf recs)" by simp
next
  assume a: "orderByPriorityAndWeight random k srvRecords = Inr (out, k') \<and>
    (\<forall>i. k \<le> i \<and> i < k' \<longrightarrow> random' i = random i)"
  then have "concatBands random k (bandPriorities (nonSentinel srvRecords))
      (nonSentinel srvRecords) = Inr (out, k')"
    by (simp add: orderByPriorityAndWeight_bands)
  from concatBands_draws[OF this, of random'] a
  show "orderByPriorityAndWeight random' k srvRecords = Inr (out, k')"
    by (simp add: orderByPriorityAndWeight_bands)
next
  assume "processResponse random queryName response = Inr (Some res)"
  from processResponse_Some[OF this]
  show "\<exists>answers records k'.
         Answer response = Some answers \<and>
         mapDeserialise (filter (\<lambda>a. answer_name a = queryName \<and> answer_type a = SRV) answers) =
           Inr records \<and>
         concatBands random 0 (bandPriorities (nonSentinel records)) (nonSentinel records) =
           Inr (services res, k') \<and>
         isDomainSecure res = AD response"
    by (simp add: orderByPriorityAndWeight_bands)
qed

theorem locateServices_priority_bands_witness:
  "processResponse (\<lambda>_. 3 / 10) ''_bsvalias._tcp.example.com''
       (exampleResponse exampleWeightedAnswers) =
     Inr (Some \<lparr> services =
       [exampleService ''target4.example.com'', exampleService ''target2.example.com'',
        exampleService ''target1.example.com'', exampleService ''target3.example.com''],
       isDomainSecure = True \<rparr>) \<and>
   bandPriorities (nonSentinel exampleWeightedRecords) = [7, 10] \<and>
   concatBands (\<lambda>_. 3 / 10) 0 [7, 10] (nonSentinel exampleWeightedRecords) =
     Inr ([exampleService ''target4.example.com'', exampleService ''target2.example.com'',
           exampleService ''target1.example.com'', exampleService ''target3.example.com''], 2) \<and>
   orderResourceListByWeight (\<lambda>_. 3 / 10) 0 (band 10 exampleWeightedRecords) =
     Inr ([exampleService ''target2.example.com'',
           exampleService ''target1.example.com'', exampleService ''target3.example.com''], 2) \<and>
   mset [exampleService ''target2.example.com'',
         exampleService ''target1.example.com'', exampleService ''target3.example.com''] =
     mset (map serviceOf (band 10 exampleWeightedRecords)) \<and>
   orderByPriorityAndWeight (\<lambda>i. if i < 2 then 3 / 10 else 1 / 2) 0 exampleWeightedRecords =
     Inr ([exampleService ''target4.example.com'', exampleService ''target2.example.com'',
           exampleService ''target1.example.com'', exampleService ''target3.example.com''], 2)"
proof -
  let ?out = "[exampleService ''target4.example.com'', exampleService ''target2.example.com'',
           exampleService ''target1.example.com'', exampleService ''target3.example.com'']"
  let ?band = "[exampleService ''target2.example.com'',
           exampleService ''target1.example.com'', exampleService ''target3.example.com'']"
  let ?res = "\<lparr> services = ?out, isDomainSecure = True \<rparr>"
  let ?random' = "\<lambda>i::nat. if i < 2 then 3 / 10 else (1 / 2 :: rat)"
  have e1: "orderByPriorityAndWeight (\<lambda>_. 3 / 10) 0 exampleWeightedRecords = Inr (?out, 2)"
    by code_simp
  have e2: "processResponse (\<lambda>_. 3 / 10) ''_bsvalias._tcp.example.com''
       (exampleResponse exampleWeightedAnswers) = Inr (Some ?res)"
    by code_simp
  have e3: "orderResourceListByWeight (\<lambda>_. 3 / 10) 0 (band 10 exampleWeightedRecords) =
     Inr (?band, 2)"
    by code_simp
  have e4: "bandPriorities (nonSentinel exampleWeightedRecords) = [7, 10]"
    by code_simp
  have e5: "\<forall>i. 0 \<le> i \<and> i < 2 \<longrightarrow> ?random' i = 3 / 10" by simp
  note t = locateServices_priority_bands
    [where random = "\<lambda>_. 3 / 10" and k = 0 and srvRecords = exampleWeightedRecords
       and recs = "band 10 exampleWeightedRecords" and ordered = ?band and ?k1.0 = 2
       and out = ?out and k' = 2 and random' = ?random'
       and queryName = "''_bsvalias._tcp.example.com''"
       and response = "exampleResponse exampleWeightedAnswers" and res = ?res]
  from t e1 e4 have c: "concatBands (\<lambda>_. 3 / 10) 0 [7, 10] (nonSentinel exampleWeightedRecords) =
      Inr (?out, 2)" by simp
  from t e3 have m: "mset ?band = mset (map serviceOf (band 10 exampleWeightedRecords))"
    by blast
  from t e1 e5 have d: "orderByPriorityAndWeight ?random' 0 exampleWeightedRecords = Inr (?out, 2)"
    by blast
  from e2 e4 c e3 m d show ?thesis by blast
qed

subsection \<open>Properties of the string primitives\<close>

lemma split_js_nonempty: "split_js sep s \<noteq> []"
  by (induction s) (auto split: list.splits)

lemma split_js_join: "concat (map (\<lambda>t. sep # t) (split_js sep s)) = sep # s"
  by (induction s) (auto split: list.splits simp: split_js_nonempty)

lemma split_js_no_sep: "t \<in> set (split_js sep s) \<Longrightarrow> sep \<notin> set t"
  by (induction s arbitrary: t) (auto split: list.splits if_splits simp: split_js_nonempty)

lemma split_js_length: "length (split_js sep s) = Suc (count_list s sep)"
  by (induction s) (auto split: list.splits simp: split_js_nonempty)

lemma split_js_four:
  assumes "split_js sep s = [a, b, c, d]"
  shows "s = a @ sep # b @ sep # c @ sep # d"
  using split_js_join[of sep s] unfolding assms by simp

lemma stripTrailingDot_snoc: "stripTrailingDot (s @ ''.'') = s"
  by (simp add: stripTrailingDot_def)

lemma stripTrailingDot_id: "s = [] \<or> last s \<noteq> CHR ''.'' \<Longrightarrow> stripTrailingDot s = s"
  by (auto simp: stripTrailingDot_def)

lemma stripTrailingDot_empty_iff: "stripTrailingDot s = [] \<longleftrightarrow> s = [] \<or> s = ''.''"
proof (cases s rule: rev_cases)
  case Nil
  then show ?thesis by (simp add: stripTrailingDot_def)
next
  case (snoc ys y)
  then show ?thesis by (auto simp: stripTrailingDot_def)
qed

lemma normaliseTarget_sentinel_iff:
  "normaliseTarget t = ''.'' \<longleftrightarrow> t = [] \<or> t = ''.'' \<or> t = ''..''"
proof (cases t rule: rev_cases)
  case Nil
  then show ?thesis by (simp add: normaliseTarget_def stripTrailingDot_def)
next
  case (snoc ys y)
  then show ?thesis by (auto simp: normaliseTarget_def stripTrailingDot_def)
qed

lemma deserialiseSrvAnswer_tokens:
  assumes "split_js CHR '' '' (answer_data answer) = [p, w, po, t]"
  shows "deserialiseSrvAnswer answer =
     (case parseInt p of
        None \<Rightarrow> Inl (DnsServerResponseError
                  ''Invalid priority: value could not be converted to a number'')
      | Some pv \<Rightarrow>
      (case parseInt w of
        None \<Rightarrow> Inl (DnsServerResponseError
                  ''Invalid weight: value could not be converted to a number'')
      | Some wv \<Rightarrow>
      (case parseInt po of
        None \<Rightarrow> Inl (DnsServerResponseError
                  ''Invalid port: value could not be converted to a number'')
      | Some pov \<Rightarrow>
          if list_ex isLineTerminator t
          then Inl (DnsServerResponseError ''Invalid target domain name found'')
          else Inr \<lparr> srv_name = answer_name answer, srv_TTL = answer_TTL answer,
                     priority = pv, weight = wv, srv_port = pov,
                     target = normaliseTarget t \<rparr>)))"
  by (simp add: deserialiseSrvAnswer_def assms execTargetRegex_def normaliseTarget_def
        split: option.splits)

text \<open>
  Claim C6. Deserialisation of an answer fails with ``Invalid answer'' unless its data splits
  at the spaces into exactly four tokens (so that the data is the four tokens, free of
  spaces, joined by single spaces). With four tokens, the first of priority, weight and port
  (in this order) that \<^verbatim>\<open>parseInt\<close> does not read as an integer fails with the error that
  names that field, and the three messages differ (\<^verbatim>\<open>parseInt\<close> skips leading white
  space, reads one sign and the longest run of digits and ignores what follows, so that a
  token is rejected exactly when no digit stands there). When the three numbers are read and the
  target holds no line terminator, the record carries the three numbers and the target with
  one final dot removed; a target that is empty after that (the token is empty or is the
  dot alone) becomes the sentinel.
\<close>

theorem deserialiseSrvAnswer_fields:
  "(length (split_js CHR '' '' (answer_data answer)) \<noteq> 4 \<longrightarrow>
      deserialiseSrvAnswer answer = Inl (DnsServerResponseError ''Invalid answer'')) \<and>
   (split_js CHR '' '' (answer_data answer) = [p, w, po, t] \<longrightarrow>
      answer_data answer = p @ '' '' @ w @ '' '' @ po @ '' '' @ t \<and>
      CHR '' '' \<notin> set p \<union> set w \<union> set po \<union> set t \<and>
      (parseInt p = None \<longrightarrow>
         deserialiseSrvAnswer answer = Inl (DnsServerResponseError
           ''Invalid priority: value could not be converted to a number'')) \<and>
      (parseInt p \<noteq> None \<and> parseInt w = None \<longrightarrow>
         deserialiseSrvAnswer answer = Inl (DnsServerResponseError
           ''Invalid weight: value could not be converted to a number'')) \<and>
      (parseInt p \<noteq> None \<and> parseInt w \<noteq> None \<and> parseInt po = None \<longrightarrow>
         deserialiseSrvAnswer answer = Inl (DnsServerResponseError
           ''Invalid port: value could not be converted to a number'')) \<and>
      (parseInt p = Some pv \<and> parseInt w = Some wv \<and> parseInt po = Some pov \<and>
       \<not> list_ex isLineTerminator t \<longrightarrow>
         deserialiseSrvAnswer answer =
           Inr \<lparr> srv_name = answer_name answer, srv_TTL = answer_TTL answer,
                 priority = pv, weight = wv, srv_port = pov,
                 target = (if stripTrailingDot t = [] then ''.'' else stripTrailingDot t) \<rparr>)) \<and>
   (deserialiseSrvAnswer answer = Inr r \<longrightarrow>
      (\<exists>p w po t. split_js CHR '' '' (answer_data answer) = [p, w, po, t] \<and>
         parseInt p = Some (priority r) \<and> parseInt w = Some (weight r) \<and>
         parseInt po = Some (srv_port r) \<and>
         target r = (if stripTrailingDot t = [] then ''.'' else stripTrailingDot t))) \<and>
   stripTrailingDot (s @ ''.'') = s \<and>
   (stripTrailingDot s = [] \<longleftrightarrow> s = [] \<or> s = ''.'') \<and>
   distinct [''Invalid answer'',
             ''Invalid priority: value could not be converted to a number'',
             ''Invalid weight: value could not be converted to a number'',
             ''Invalid port: value could not be converted to a number'',
             ''Invalid target domain name found'']"
proof (intro conjI impI)
  assume "length (split_js CHR '' '' (answer_data answer)) \<noteq> 4"
  then show "deserialiseSrvAnswer answer = Inl (DnsServerResponseError ''Invalid answer'')"
    by (simp add: deserialiseSrvAnswer_def)
next
  assume a: "split_js CHR '' '' (answer_data answer) = [p, w, po, t]"
  from split_js_four[OF a] show "answer_data answer = p @ '' '' @ w @ '' '' @ po @ '' '' @ t"
    by simp
  from split_js_no_sep[of _ "CHR '' ''" "answer_data answer"] a
  show "CHR '' '' \<notin> set p \<union> set w \<union> set po \<union> set t" by auto
next
  assume "split_js CHR '' '' (answer_data answer) = [p, w, po, t]" "parseInt p = None"
  then show "deserialiseSrvAnswer answer = Inl (DnsServerResponseError
           ''Invalid priority: value could not be converted to a number'')"
    by (simp add: deserialiseSrvAnswer_tokens)
next
  assume "split_js CHR '' '' (answer_data answer) = [p, w, po, t]"
    "parseInt p \<noteq> None \<and> parseInt w = None"
  then show "deserialiseSrvAnswer answer = Inl (DnsServerResponseError
           ''Invalid weight: value could not be converted to a number'')"
    by (auto simp: deserialiseSrvAnswer_tokens)
next
  assume "split_js CHR '' '' (answer_data answer) = [p, w, po, t]"
    "parseInt p \<noteq> None \<and> parseInt w \<noteq> None \<and> parseInt po = None"
  then show "deserialiseSrvAnswer answer = Inl (DnsServerResponseError
           ''Invalid port: value could not be converted to a number'')"
    by (auto simp: deserialiseSrvAnswer_tokens)
next
  assume "split_js CHR '' '' (answer_data answer) = [p, w, po, t]"
    "parseInt p = Some pv \<and> parseInt w = Some wv \<and> parseInt po = Some pov \<and>
       \<not> list_ex isLineTerminator t"
  then show "deserialiseSrvAnswer answer =
           Inr \<lparr> srv_name = answer_name answer, srv_TTL = answer_TTL answer,
                 priority = pv, weight = wv, srv_port = pov,
                 target = (if stripTrailingDot t = [] then ''.'' else stripTrailingDot t) \<rparr>"
    by (simp add: deserialiseSrvAnswer_tokens normaliseTarget_def)
next
  assume r: "deserialiseSrvAnswer answer = Inr r"
  then have "length (split_js CHR '' '' (answer_data answer)) = 4"
    by (auto simp: deserialiseSrvAnswer_def Let_def split: if_splits)
  then obtain p w po t where a: "split_js CHR '' '' (answer_data answer) = [p, w, po, t]"
    by (auto simp: length_Suc_conv numeral_eq_Suc)
  from r show "\<exists>p w po t. split_js CHR '' '' (answer_data answer) = [p, w, po, t] \<and>
         parseInt p = Some (priority r) \<and> parseInt w = Some (weight r) \<and>
         parseInt po = Some (srv_port r) \<and>
         target r = (if stripTrailingDot t = [] then ''.'' else stripTrailingDot t)"
    unfolding deserialiseSrvAnswer_tokens[OF a] a
    by (auto simp: normaliseTarget_def split: option.splits if_splits)
next
  show "stripTrailingDot (s @ ''.'') = s" by (rule stripTrailingDot_snoc)
  show "stripTrailingDot s = [] \<longleftrightarrow> s = [] \<or> s = ''.''" by (rule stripTrailingDot_empty_iff)
  show "distinct [''Invalid answer'',
             ''Invalid priority: value could not be converted to a number'',
             ''Invalid weight: value could not be converted to a number'',
             ''Invalid port: value could not be converted to a number'',
             ''Invalid target domain name found'']"
    by simp
qed

theorem deserialiseSrvAnswer_fields_witness:
  "deserialiseSrvAnswer (exampleAnswer ''only three words'') =
     Inl (DnsServerResponseError ''Invalid answer'') \<and>
   deserialiseSrvAnswer (exampleAnswer ''not-a-number 10 443 example.com'') =
     Inl (DnsServerResponseError ''Invalid priority: value could not be converted to a number'') \<and>
   deserialiseSrvAnswer (exampleAnswer ''10 not-a-number 443 example.com'') =
     Inl (DnsServerResponseError ''Invalid weight: value could not be converted to a number'') \<and>
   deserialiseSrvAnswer (exampleAnswer ''10 10 not-a-number example.com'') =
     Inl (DnsServerResponseError ''Invalid port: value could not be converted to a number'') \<and>
   deserialiseSrvAnswer (exampleAnswer ''10 20 443 example.com.'') =
     Inr \<lparr> srv_name = ''_bsvalias._tcp.example.com'', srv_TTL = 299, priority = 10, weight = 20,
           srv_port = 443, target = ''example.com'' \<rparr> \<and>
   deserialiseSrvAnswer (exampleAnswer ''10 20 443 .'') =
     Inr \<lparr> srv_name = ''_bsvalias._tcp.example.com'', srv_TTL = 299, priority = 10, weight = 20,
           srv_port = 443, target = ''.'' \<rparr> \<and>
   parseInt ''10'' = Some 10 \<and> parseInt ''not-a-number'' = None"
proof -
  have d: "answer_data (exampleAnswer x) = x" "answer_name (exampleAnswer x) = ''_bsvalias._tcp.example.com''"
    "answer_TTL (exampleAnswer x) = 299" for x
    by (simp_all add: exampleAnswer_def)
  have n: "parseInt ''10'' = Some 10" "parseInt ''20'' = Some 20" "parseInt ''443'' = Some 443"
    "parseInt ''not-a-number'' = None"
    by code_simp+
  have l: "\<not> list_ex isLineTerminator ''example.com.''" "\<not> list_ex isLineTerminator ''.''"
    by code_simp+
  have s0: "length (split_js CHR '' '' ''only three words'') \<noteq> 4" by code_simp
  have s1: "split_js CHR '' '' ''not-a-number 10 443 example.com'' =
      [''not-a-number'', ''10'', ''443'', ''example.com'']" by code_simp
  have s2: "split_js CHR '' '' ''10 not-a-number 443 example.com'' =
      [''10'', ''not-a-number'', ''443'', ''example.com'']" by code_simp
  have s3: "split_js CHR '' '' ''10 10 not-a-number example.com'' =
      [''10'', ''10'', ''not-a-number'', ''example.com'']" by code_simp
  have s4: "split_js CHR '' '' ''10 20 443 example.com.'' =
      [''10'', ''20'', ''443'', ''example.com.'']" by code_simp
  have s5: "split_js CHR '' '' ''10 20 443 .'' = [''10'', ''20'', ''443'', ''.'']" by code_simp
  have t: "stripTrailingDot ''example.com.'' = ''example.com''" "stripTrailingDot ''.'' = []"
    by code_simp+
  have r0: "deserialiseSrvAnswer (exampleAnswer ''only three words'') =
     Inl (DnsServerResponseError ''Invalid answer'')"
    using deserialiseSrvAnswer_fields[where answer = "exampleAnswer ''only three words''"] s0
    unfolding d by blast
  have r1: "deserialiseSrvAnswer (exampleAnswer ''not-a-number 10 443 example.com'') =
     Inl (DnsServerResponseError ''Invalid priority: value could not be converted to a number'')"
    using deserialiseSrvAnswer_fields[where answer = "exampleAnswer ''not-a-number 10 443 example.com''"
        and p = "''not-a-number''" and w = "''10''" and po = "''443''" and t = "''example.com''"]
      s1 n unfolding d by blast
  have r2: "deserialiseSrvAnswer (exampleAnswer ''10 not-a-number 443 example.com'') =
     Inl (DnsServerResponseError ''Invalid weight: value could not be converted to a number'')"
    using deserialiseSrvAnswer_fields[where answer = "exampleAnswer ''10 not-a-number 443 example.com''"
        and p = "''10''" and w = "''not-a-number''" and po = "''443''" and t = "''example.com''"]
      s2 n unfolding d by simp
  have r3: "deserialiseSrvAnswer (exampleAnswer ''10 10 not-a-number example.com'') =
     Inl (DnsServerResponseError ''Invalid port: value could not be converted to a number'')"
    using deserialiseSrvAnswer_fields[where answer = "exampleAnswer ''10 10 not-a-number example.com''"
        and p = "''10''" and w = "''10''" and po = "''not-a-number''" and t = "''example.com''"]
      s3 n unfolding d by simp
  have r4: "deserialiseSrvAnswer (exampleAnswer ''10 20 443 example.com.'') =
     Inr \<lparr> srv_name = ''_bsvalias._tcp.example.com'', srv_TTL = 299, priority = 10, weight = 20,
           srv_port = 443, target = ''example.com'' \<rparr>"
    using deserialiseSrvAnswer_fields[where answer = "exampleAnswer ''10 20 443 example.com.''"
        and p = "''10''" and w = "''20''" and po = "''443''" and t = "''example.com.''"
        and pv = 10 and wv = 20 and pov = 443]
      s4 n l t unfolding d by simp
  have r5: "deserialiseSrvAnswer (exampleAnswer ''10 20 443 .'') =
     Inr \<lparr> srv_name = ''_bsvalias._tcp.example.com'', srv_TTL = 299, priority = 10, weight = 20,
           srv_port = 443, target = ''.'' \<rparr>"
    using deserialiseSrvAnswer_fields[where answer = "exampleAnswer ''10 20 443 .''"
        and p = "''10''" and w = "''20''" and po = "''443''" and t = "''.''"
        and pv = 10 and wv = 20 and pov = 443]
      s5 n l t unfolding d by simp
  from r0 r1 r2 r3 r4 r5 n show ?thesis by blast
qed

subsection \<open>The checks of the response\<close>

lemma queryNameOf_nonempty: "queryNameOf domainName service protocol \<noteq> []"
  by (simp add: queryNameOf_def)

lemma locateServices_resolved:
  "network (dnsQueryUrl (queryNameOf domainName service protocol)) = Resolves response \<Longrightarrow>
   locateServices network random domainName service protocol =
     processResponse random (queryNameOf domainName service protocol) response"
  by (simp add: locateServices_def request_get_def sendRequest_def)

lemma processResponse_valid:
  assumes "validHeader queryName response" and "queryName \<noteq> []"
  shows "processResponse random queryName response =
     (case Answer response of
        None \<Rightarrow> Inr None
      | Some answers \<Rightarrow>
          (case mapDeserialise (matchingAnswers queryName answers) of
             Inl e \<Rightarrow> Inl e
           | Inr srvRecords \<Rightarrow>
               if srvRecords = [] then Inl (DnsServerResponseError ''No valid answer found'')
               else if length (filter (\<lambda>record. target record = ''.'') srvRecords) = 1
               then Inr None
               else (case orderByPriorityAndWeight random 0 srvRecords of
                       Inl e \<Rightarrow> Inl e
                     | Inr (sortedServices, k) \<Rightarrow>
                         Inr (Some \<lparr> services = sortedServices,
                                     isDomainSecure = AD response \<rparr>))))"
proof -
  from assms(1) obtain question where q: "Question response = Some [question]"
    and n: "question_name question = queryName" and t: "question_type question = SRV"
    and s: "Status response = NOERROR"
    by (auto simp: validHeader_def split: option.splits list.splits)
  show ?thesis
    unfolding processResponse_def matchingAnswers_def
    using q n t s assms(2)
    by (simp add: NOERROR_def NXDOMAIN_def SRV_def Let_def split: option.splits sum.splits)
qed

text \<open>
  Claim C5. Of a response that the request returns, \<^verbatim>\<open>locateServices\<close> checks in this order:
  the status NXDOMAIN gives \<^verbatim>\<open>null\<close>; any other status than NOERROR fails; a missing
  \<^verbatim>\<open>Question\<close>, a number of questions other than one, a question name other than the
  query name and a question type other than SRV each fail with a message of their own; with
  these checks passed a missing \<^verbatim>\<open>Answer\<close> gives \<^verbatim>\<open>null\<close>, and answers of which none
  echoes the name and type of the question fail with a further message.
\<close>

theorem locateServices_response_validation:
  assumes "network (dnsQueryUrl (queryNameOf domainName service protocol)) = Resolves response"
  shows
  "(Status response = NXDOMAIN \<longrightarrow>
      locateServices network random domainName service protocol = Inr None) \<and>
   (Status response \<noteq> NXDOMAIN \<and> Status response \<noteq> NOERROR \<longrightarrow>
      locateServices network random domainName service protocol =
        Inl (DnsServerResponseError ''Error response sent by the server'')) \<and>
   (Status response = NOERROR \<and> Question response = None \<longrightarrow>
      locateServices network random domainName service protocol =
        Inl (DnsServerResponseError ''No `Question` field found'')) \<and>
   (Status response = NOERROR \<and> Question response = Some questions \<and> length questions \<noteq> 1 \<longrightarrow>
      locateServices network random domainName service protocol =
        Inl (DnsServerResponseError ''Expected only one `Question` element'')) \<and>
   (Status response = NOERROR \<and> Question response = Some [question] \<and>
    question_name question \<noteq> queryNameOf domainName service protocol \<longrightarrow>
      locateServices network random domainName service protocol =
        Inl (DnsServerResponseError ''Invalid question name'')) \<and>
   (Status response = NOERROR \<and> Question response = Some [question] \<and>
    question_name question = queryNameOf domainName service protocol \<and>
    question_type question \<noteq> SRV \<longrightarrow>
      locateServices network random domainName service protocol =
        Inl (DnsServerResponseError ''Invalid question type'')) \<and>
   (validHeader (queryNameOf domainName service protocol) response \<and> Answer response = None \<longrightarrow>
      locateServices network random domainName service protocol = Inr None) \<and>
   (validHeader (queryNameOf domainName service protocol) response \<and>
    Answer response = Some answers \<and>
    matchingAnswers (queryNameOf domainName service protocol) answers = [] \<longrightarrow>
      locateServices network random domainName service protocol =
        Inl (DnsServerResponseError ''No valid answer found'')) \<and>
   distinct [''Error response sent by the server'', ''No `Question` field found'',
             ''Expected only one `Question` element'', ''Invalid question name'',
             ''Invalid question type'', ''No valid answer found'']"
proof -
  let ?q = "queryNameOf domainName service protocol"
  have l: "locateServices network random domainName service protocol =
      processResponse random ?q response"
    using assms by (rule locateServices_resolved)
  have ne: "?q \<noteq> []" by (rule queryNameOf_nonempty)
  show ?thesis
  proof (intro conjI impI)
    assume "Status response = NXDOMAIN"
    then show "locateServices network random domainName service protocol = Inr None"
      unfolding l by (simp add: processResponse_def)
  next
    assume "Status response \<noteq> NXDOMAIN \<and> Status response \<noteq> NOERROR"
    then show "locateServices network random domainName service protocol =
        Inl (DnsServerResponseError ''Error response sent by the server'')"
      unfolding l by (simp add: processResponse_def)
  next
    assume "Status response = NOERROR \<and> Question response = None"
    then show "locateServices network random domainName service protocol =
        Inl (DnsServerResponseError ''No `Question` field found'')"
      unfolding l by (simp add: processResponse_def NOERROR_def NXDOMAIN_def)
  next
    assume "Status response = NOERROR \<and> Question response = Some questions \<and> length questions \<noteq> 1"
    then show "locateServices network random domainName service protocol =
        Inl (DnsServerResponseError ''Expected only one `Question` element'')"
      unfolding l by (simp add: processResponse_def NOERROR_def NXDOMAIN_def)
  next
    assume "Status response = NOERROR \<and> Question response = Some [question] \<and>
      question_name question \<noteq> ?q"
    then show "locateServices network random domainName service protocol =
        Inl (DnsServerResponseError ''Invalid question name'')"
      unfolding l by (simp add: processResponse_def NOERROR_def NXDOMAIN_def)
  next
    assume "Status response = NOERROR \<and> Question response = Some [question] \<and>
      question_name question = ?q \<and> question_type question \<noteq> SRV"
    then show "locateServices network random domainName service protocol =
        Inl (DnsServerResponseError ''Invalid question type'')"
      unfolding l using ne by (simp add: processResponse_def NOERROR_def NXDOMAIN_def)
  next
    assume "validHeader ?q response \<and> Answer response = None"
    then show "locateServices network random domainName service protocol = Inr None"
      unfolding l using ne by (simp add: processResponse_valid)
  next
    assume "validHeader ?q response \<and> Answer response = Some answers \<and>
      matchingAnswers ?q answers = []"
    then show "locateServices network random domainName service protocol =
        Inl (DnsServerResponseError ''No valid answer found'')"
      unfolding l using ne by (simp add: processResponse_valid)
  next
    show "distinct [''Error response sent by the server'', ''No `Question` field found'',
             ''Expected only one `Question` element'', ''Invalid question name'',
             ''Invalid question type'', ''No valid answer found'']"
      by simp
  qed
qed

theorem locateServices_response_validation_witness:
  "locateServices (\<lambda>_. Resolves (exampleQuery 3
        (Some [exampleQuestion ''_bsvalias._tcp.example.com'' 33])
        (Some [exampleAnswer ''10 10 443 .''])))
      (\<lambda>_. 0) ''example.com'' ''bsvalias'' ''tcp'' = Inr None \<and>
   locateServices (\<lambda>_. Resolves (exampleQuery 2 None None))
      (\<lambda>_. 0) ''example.com'' ''bsvalias'' ''tcp'' =
     Inl (DnsServerResponseError ''Error response sent by the server'') \<and>
   locateServices (\<lambda>_. Resolves (exampleQuery 0 None None))
      (\<lambda>_. 0) ''example.com'' ''bsvalias'' ''tcp'' =
     Inl (DnsServerResponseError ''No `Question` field found'') \<and>
   locateServices (\<lambda>_. Resolves (exampleQuery 0
        (Some [exampleQuestion ''_bsvalias._tcp.example.com'' 33,
               exampleQuestion ''_bsvalias._tcp.example.com'' 33])
        (Some [exampleAnswer ''10 10 443 example.com''])))
      (\<lambda>_. 0) ''example.com'' ''bsvalias'' ''tcp'' =
     Inl (DnsServerResponseError ''Expected only one `Question` element'') \<and>
   locateServices (\<lambda>_. Resolves (exampleQuery 0
        (Some [exampleQuestion ''_bsvalias._tcp.other.com'' 33]) None))
      (\<lambda>_. 0) ''example.com'' ''bsvalias'' ''tcp'' =
     Inl (DnsServerResponseError ''Invalid question name'') \<and>
   locateServices (\<lambda>_. Resolves (exampleQuery 0
        (Some [exampleQuestion ''_bsvalias._tcp.example.com'' 1]) None))
      (\<lambda>_. 0) ''example.com'' ''bsvalias'' ''tcp'' =
     Inl (DnsServerResponseError ''Invalid question type'') \<and>
   locateServices (\<lambda>_. Resolves (exampleQuery 0
        (Some [exampleQuestion ''_bsvalias._tcp.example.com'' 33]) None))
      (\<lambda>_. 0) ''example.com'' ''bsvalias'' ''tcp'' = Inr None \<and>
   locateServices (\<lambda>_. Resolves (exampleQuery 0
        (Some [exampleQuestion ''_bsvalias._tcp.example.com'' 33])
        (Some [(exampleAnswer ''some data'')\<lparr>answer_type := 1\<rparr>])))
      (\<lambda>_. 0) ''example.com'' ''bsvalias'' ''tcp'' =
     Inl (DnsServerResponseError ''No valid answer found'')"
proof -
  let ?q = "exampleQuestion ''_bsvalias._tcp.example.com'' 33"
  have qn: "queryNameOf ''example.com'' ''bsvalias'' ''tcp'' = ''_bsvalias._tcp.example.com''"
    by (simp add: queryNameOf_def)
  have f: "Status (exampleQuery st qs as) = st" "Question (exampleQuery st qs as) = qs"
    "Answer (exampleQuery st qs as) = as" for st qs as
    by (simp_all add: exampleQuery_def)
  have g: "question_name (exampleQuestion n t) = n" "question_type (exampleQuestion n t) = t" for n t
    by (simp_all add: exampleQuestion_def)
  have v: "validHeader ''_bsvalias._tcp.example.com'' (exampleQuery 0 (Some [?q]) as)" for as
    by (simp add: validHeader_def f g NOERROR_def SRV_def)
  have m: "matchingAnswers ''_bsvalias._tcp.example.com''
      [(exampleAnswer ''some data'')\<lparr>answer_type := 1\<rparr>] = []"
    by (simp add: matchingAnswers_def exampleAnswer_def SRV_def)
  have c: "NXDOMAIN = 3" "NOERROR = 0" "SRV = 33" by (simp_all add: NXDOMAIN_def NOERROR_def SRV_def)
  have r1: "locateServices (\<lambda>_. Resolves (exampleQuery 3 (Some [?q]) (Some [exampleAnswer ''10 10 443 .''])))
      (\<lambda>_. 0) ''example.com'' ''bsvalias'' ''tcp'' = Inr None"
    using locateServices_response_validation
      [where network = "\<lambda>_. Resolves (exampleQuery 3 (Some [?q]) (Some [exampleAnswer ''10 10 443 .'']))"
         and response = "exampleQuery 3 (Some [?q]) (Some [exampleAnswer ''10 10 443 .''])"
         and random = "\<lambda>_. 0" and domainName = "''example.com''" and service = "''bsvalias''"
         and protocol = "''tcp''"]
    by (simp add: f c)
  have r2: "locateServices (\<lambda>_. Resolves (exampleQuery 2 None None))
      (\<lambda>_. 0) ''example.com'' ''bsvalias'' ''tcp'' =
     Inl (DnsServerResponseError ''Error response sent by the server'')"
    using locateServices_response_validation
      [where network = "\<lambda>_. Resolves (exampleQuery 2 None None)"
         and response = "exampleQuery 2 None None"
         and random = "\<lambda>_. 0" and domainName = "''example.com''" and service = "''bsvalias''"
         and protocol = "''tcp''"]
    by (simp add: f c)
  have r3: "locateServices (\<lambda>_. Resolves (exampleQuery 0 None None))
      (\<lambda>_. 0) ''example.com'' ''bsvalias'' ''tcp'' =
     Inl (DnsServerResponseError ''No `Question` field found'')"
    using locateServices_response_validation
      [where network = "\<lambda>_. Resolves (exampleQuery 0 None None)"
         and response = "exampleQuery 0 None None"
         and random = "\<lambda>_. 0" and domainName = "''example.com''" and service = "''bsvalias''"
         and protocol = "''tcp''"]
    by (simp add: f c)
  have r4: "locateServices (\<lambda>_. Resolves (exampleQuery 0 (Some [?q, ?q])
        (Some [exampleAnswer ''10 10 443 example.com''])))
      (\<lambda>_. 0) ''example.com'' ''bsvalias'' ''tcp'' =
     Inl (DnsServerResponseError ''Expected only one `Question` element'')"
    using locateServices_response_validation
      [where network = "\<lambda>_. Resolves (exampleQuery 0 (Some [?q, ?q])
            (Some [exampleAnswer ''10 10 443 example.com'']))"
         and response = "exampleQuery 0 (Some [?q, ?q]) (Some [exampleAnswer ''10 10 443 example.com''])"
         and questions = "[?q, ?q]"
         and random = "\<lambda>_. 0" and domainName = "''example.com''" and service = "''bsvalias''"
         and protocol = "''tcp''"]
    by (simp add: f c)
  have r5: "locateServices (\<lambda>_. Resolves (exampleQuery 0
        (Some [exampleQuestion ''_bsvalias._tcp.other.com'' 33]) None))
      (\<lambda>_. 0) ''example.com'' ''bsvalias'' ''tcp'' =
     Inl (DnsServerResponseError ''Invalid question name'')"
    using locateServices_response_validation
      [where network = "\<lambda>_. Resolves (exampleQuery 0
            (Some [exampleQuestion ''_bsvalias._tcp.other.com'' 33]) None)"
         and response = "exampleQuery 0 (Some [exampleQuestion ''_bsvalias._tcp.other.com'' 33]) None"
         and question = "exampleQuestion ''_bsvalias._tcp.other.com'' 33"
         and random = "\<lambda>_. 0" and domainName = "''example.com''" and service = "''bsvalias''"
         and protocol = "''tcp''"]
    by (simp add: f g c qn)
  have r6: "locateServices (\<lambda>_. Resolves (exampleQuery 0
        (Some [exampleQuestion ''_bsvalias._tcp.example.com'' 1]) None))
      (\<lambda>_. 0) ''example.com'' ''bsvalias'' ''tcp'' =
     Inl (DnsServerResponseError ''Invalid question type'')"
    using locateServices_response_validation
      [where network = "\<lambda>_. Resolves (exampleQuery 0
            (Some [exampleQuestion ''_bsvalias._tcp.example.com'' 1]) None)"
         and response = "exampleQuery 0 (Some [exampleQuestion ''_bsvalias._tcp.example.com'' 1]) None"
         and question = "exampleQuestion ''_bsvalias._tcp.example.com'' 1"
         and random = "\<lambda>_. 0" and domainName = "''example.com''" and service = "''bsvalias''"
         and protocol = "''tcp''"]
    by (simp add: f g c qn)
  have r7: "locateServices (\<lambda>_. Resolves (exampleQuery 0 (Some [?q]) None))
      (\<lambda>_. 0) ''example.com'' ''bsvalias'' ''tcp'' = Inr None"
    using locateServices_response_validation
      [where network = "\<lambda>_. Resolves (exampleQuery 0 (Some [?q]) None)"
         and response = "exampleQuery 0 (Some [?q]) None"
         and random = "\<lambda>_. 0" and domainName = "''example.com''" and service = "''bsvalias''"
         and protocol = "''tcp''"]
      v[of None]
    by (simp add: f qn)
  have r8: "locateServices (\<lambda>_. Resolves (exampleQuery 0 (Some [?q])
        (Some [(exampleAnswer ''some data'')\<lparr>answer_type := 1\<rparr>])))
      (\<lambda>_. 0) ''example.com'' ''bsvalias'' ''tcp'' =
     Inl (DnsServerResponseError ''No valid answer found'')"
    using locateServices_response_validation
      [where network = "\<lambda>_. Resolves (exampleQuery 0 (Some [?q])
            (Some [(exampleAnswer ''some data'')\<lparr>answer_type := 1\<rparr>]))"
         and response = "exampleQuery 0 (Some [?q])
            (Some [(exampleAnswer ''some data'')\<lparr>answer_type := 1\<rparr>])"
         and answers = "[(exampleAnswer ''some data'')\<lparr>answer_type := 1\<rparr>]"
         and random = "\<lambda>_. 0" and domainName = "''example.com''" and service = "''bsvalias''"
         and protocol = "''tcp''"]
      v[of "Some [(exampleAnswer ''some data'')\<lparr>answer_type := 1\<rparr>]"] m
    by (simp add: f qn)
  from r1 r2 r3 r4 r5 r6 r7 r8 show ?thesis by blast
qed

text \<open>
  Claim C2, as amended. With the checks of the response passed and the matching answers
  deserialised, \<^verbatim>\<open>locateServices\<close> returns \<^verbatim>\<open>null\<close> exactly when exactly one of the
  records has the sentinel target, whatever the number of the other records: a sole sentinel
  answer is withdrawal, and so is one sentinel answer among answers with other targets.
  With no sentinel record or with two or more, the sentinel records are dropped and the
  remaining records are ordered by priority and weight.
\<close>

theorem locateServices_withdrawal:
  assumes "network (dnsQueryUrl (queryNameOf domainName service protocol)) = Resolves response"
    and "validHeader (queryNameOf domainName service protocol) response"
    and "Answer response = Some answers"
    and "mapDeserialise (matchingAnswers (queryNameOf domainName service protocol) answers) =
           Inr srvRecords"
  shows
  "(locateServices network random domainName service protocol = Inr None \<longleftrightarrow>
      length (filter (\<lambda>record. target record = ''.'') srvRecords) = 1) \<and>
   (srvRecords = [sole] \<and> target sole = ''.'' \<longrightarrow>
      locateServices network random domainName service protocol = Inr None) \<and>
   (srvRecords \<noteq> [] \<and> length (filter (\<lambda>record. target record = ''.'') srvRecords) \<noteq> 1 \<longrightarrow>
      locateServices network random domainName service protocol =
        (case concatBands random 0 (bandPriorities (nonSentinel srvRecords))
                (nonSentinel srvRecords) of
           Inl e \<Rightarrow> Inl e
         | Inr (sortedServices, k) \<Rightarrow>
             Inr (Some \<lparr> services = sortedServices, isDomainSecure = AD response \<rparr>)))"
proof -
  let ?q = "queryNameOf domainName service protocol"
  have l: "locateServices network random domainName service protocol =
      processResponse random ?q response"
    using assms(1) by (rule locateServices_resolved)
  note p = processResponse_valid[OF assms(2) queryNameOf_nonempty, of random]
  have "locateServices network random domainName service protocol =
      (if srvRecords = [] then Inl (DnsServerResponseError ''No valid answer found'')
       else if length (filter (\<lambda>record. target record = ''.'') srvRecords) = 1 then Inr None
       else (case concatBands random 0 (bandPriorities (nonSentinel srvRecords))
                    (nonSentinel srvRecords) of
               Inl e \<Rightarrow> Inl e
             | Inr (sortedServices, k) \<Rightarrow>
                 Inr (Some \<lparr> services = sortedServices, isDomainSecure = AD response \<rparr>)))"
    unfolding l p by (simp add: assms(3) assms(4) orderByPriorityAndWeight_bands)
  then show ?thesis
    by (auto split: sum.splits prod.splits)
qed

theorem locateServices_withdrawal_counterexample:
  "locateServices
     (\<lambda>_. Resolves (exampleResponse
        [exampleAnswer ''10 10 443 .'', exampleAnswer ''7 10 443 example.com'']))
     (\<lambda>_. 0) ''example.com'' ''bsvalias'' ''tcp'' = Inr None"
  by code_simp

theorem locateServices_withdrawal_witness:
  "locateServices
     (\<lambda>_. Resolves (exampleResponse
        [exampleAnswer ''10 10 443 .'', exampleAnswer ''7 10 443 example.com'']))
     (\<lambda>_. 0) ''example.com'' ''bsvalias'' ''tcp'' = Inr None \<and>
   locateServices
     (\<lambda>_. Resolves (exampleResponse [exampleAnswer ''10 10 443 .'']))
     (\<lambda>_. 0) ''example.com'' ''bsvalias'' ''tcp'' = Inr None \<and>
   locateServices
     (\<lambda>_. Resolves (exampleResponse [exampleAnswer ''10 10 443 .'', exampleAnswer ''7 10 443 .'']))
     (\<lambda>_. 0) ''example.com'' ''bsvalias'' ''tcp'' =
       Inr (Some \<lparr> services = [], isDomainSecure = True \<rparr>)"
proof -
  let ?qn = "''_bsvalias._tcp.example.com''"
  have qn: "queryNameOf ''example.com'' ''bsvalias'' ''tcp'' = ?qn"
    by (simp add: queryNameOf_def)
  have v: "validHeader ?qn (exampleResponse as)" for as
    by (simp add: validHeader_def exampleResponse_def NOERROR_def SRV_def)
  have a: "Answer (exampleResponse as) = Some as" "AD (exampleResponse as) = True" for as
    by (simp_all add: exampleResponse_def)
  let ?s1 = "exampleRecord 10 10 ''.''" and ?s2 = "exampleRecord 7 10 ''.''"
  let ?n = "exampleRecord 7 10 ''example.com''"
  have m1: "mapDeserialise (matchingAnswers ?qn
      [exampleAnswer ''10 10 443 .'', exampleAnswer ''7 10 443 example.com'']) = Inr [?s1, ?n]"
    by code_simp
  have m2: "mapDeserialise (matchingAnswers ?qn [exampleAnswer ''10 10 443 .'']) = Inr [?s1]"
    by code_simp
  have m3: "mapDeserialise (matchingAnswers ?qn
      [exampleAnswer ''10 10 443 .'', exampleAnswer ''7 10 443 .'']) = Inr [?s1, ?s2]"
    by code_simp
  have t: "target ?s1 = ''.''" "target ?s2 = ''.''" "target ?n \<noteq> ''.''"
    by (simp_all add: exampleRecord_def)
  have c: "concatBands (\<lambda>_. 0) 0 (bandPriorities (nonSentinel [?s1, ?s2])) (nonSentinel [?s1, ?s2]) =
      Inr ([], 0)"
    by code_simp
  have r1: "locateServices
     (\<lambda>_. Resolves (exampleResponse
        [exampleAnswer ''10 10 443 .'', exampleAnswer ''7 10 443 example.com'']))
     (\<lambda>_. 0) ''example.com'' ''bsvalias'' ''tcp'' = Inr None"
    using locateServices_withdrawal
      [where network = "\<lambda>_. Resolves (exampleResponse
          [exampleAnswer ''10 10 443 .'', exampleAnswer ''7 10 443 example.com''])"
        and response = "exampleResponse
          [exampleAnswer ''10 10 443 .'', exampleAnswer ''7 10 443 example.com'']"
        and answers = "[exampleAnswer ''10 10 443 .'', exampleAnswer ''7 10 443 example.com'']"
        and srvRecords = "[?s1, ?n]" and random = "\<lambda>_. 0"
        and domainName = "''example.com''" and service = "''bsvalias''" and protocol = "''tcp''"]
    unfolding qn using v a m1 t by simp
  have r2: "locateServices
     (\<lambda>_. Resolves (exampleResponse [exampleAnswer ''10 10 443 .'']))
     (\<lambda>_. 0) ''example.com'' ''bsvalias'' ''tcp'' = Inr None"
    using locateServices_withdrawal
      [where network = "\<lambda>_. Resolves (exampleResponse [exampleAnswer ''10 10 443 .''])"
        and response = "exampleResponse [exampleAnswer ''10 10 443 .'']"
        and answers = "[exampleAnswer ''10 10 443 .'']"
        and srvRecords = "[?s1]" and sole = ?s1 and random = "\<lambda>_. 0"
        and domainName = "''example.com''" and service = "''bsvalias''" and protocol = "''tcp''"]
    unfolding qn using v a m2 t by simp
  have r3: "locateServices
     (\<lambda>_. Resolves (exampleResponse [exampleAnswer ''10 10 443 .'', exampleAnswer ''7 10 443 .'']))
     (\<lambda>_. 0) ''example.com'' ''bsvalias'' ''tcp'' =
       Inr (Some \<lparr> services = [], isDomainSecure = True \<rparr>)"
    using locateServices_withdrawal
      [where network = "\<lambda>_. Resolves (exampleResponse
          [exampleAnswer ''10 10 443 .'', exampleAnswer ''7 10 443 .''])"
        and response = "exampleResponse [exampleAnswer ''10 10 443 .'', exampleAnswer ''7 10 443 .'']"
        and answers = "[exampleAnswer ''10 10 443 .'', exampleAnswer ''7 10 443 .'']"
        and srvRecords = "[?s1, ?s2]" and random = "\<lambda>_. 0"
        and domainName = "''example.com''" and service = "''bsvalias''" and protocol = "''tcp''"]
    unfolding qn using v a m3 t c by simp
  from r1 r2 r3 show ?thesis by blast
qed

subsection \<open>The trust policy of \<^verbatim>\<open>getWellKnownBaseUrl\<close>\<close>

lemma domainsAreEqual_refl: "domainsAreEqual d d"
  by (simp add: domainsAreEqual_def)

lemma getWellKnownBaseUrl_null:
  "srvResolver domainName ''bsvalias'' ''tcp'' = Inr None \<Longrightarrow>
   getWellKnownBaseUrl srvResolver domainName = Inr (wellKnownUrl domainName 443)"
  by (simp add: getWellKnownBaseUrl_def wellKnownUrl_def domainsAreEqual_refl)

lemma getWellKnownBaseUrl_service:
  assumes "srvResolver domainName ''bsvalias'' ''tcp'' = Inr (Some r)"
    and "services r = service # others"
  shows "getWellKnownBaseUrl srvResolver domainName =
     (if domainsAreEqual (host service) domainName \<or>
         domainsAreEqual (host service) (''www.'' @ domainName) \<or> isDomainSecure r
      then Inr (wellKnownUrl (host service) (port service))
      else Inl (DNSSECNotEnabledError (''DNSSEC not enabled on domain '' @ host service)))"
  using assms by (auto simp: getWellKnownBaseUrl_def wellKnownUrl_def Let_def)

lemma getWellKnownBaseUrl_empty:
  assumes "srvResolver domainName ''bsvalias'' ''tcp'' = Inr (Some r)"
    and "services r = []"
  shows "getWellKnownBaseUrl srvResolver domainName = Inl TypeError"
  using assms by (simp add: getWellKnownBaseUrl_def)

lemma getWellKnownBaseUrl_trusted:
  assumes "getWellKnownBaseUrl srvResolver domainName = Inr url"
  shows "\<exists>h p. url = wellKnownUrl h p \<and>
     (domainsAreEqual h domainName \<or> domainsAreEqual h (''www.'' @ domainName) \<or>
      (\<exists>r. srvResolver domainName ''bsvalias'' ''tcp'' = Inr (Some r) \<and> isDomainSecure r \<and>
           services r \<noteq> [] \<and> h = host (hd (services r))))"
proof (cases "srvResolver domainName ''bsvalias'' ''tcp''")
  case (Inl e)
  with assms show ?thesis by (simp add: getWellKnownBaseUrl_def)
next
  case (Inr res)
  show ?thesis
  proof (cases res)
    case None
    with Inr assms have "url = wellKnownUrl domainName 443"
      by (simp add: getWellKnownBaseUrl_null)
    then show ?thesis using domainsAreEqual_refl by blast
  next
    case (Some r)
    show ?thesis
    proof (cases "services r")
      case Nil
      with Inr Some assms show ?thesis by (simp add: getWellKnownBaseUrl_empty)
    next
      case (Cons service others)
      have "srvResolver domainName ''bsvalias'' ''tcp'' = Inr (Some r)"
        using Inr Some by simp
      from assms this Cons show ?thesis
        by (auto simp: getWellKnownBaseUrl_service split: if_splits)
    qed
  qed
qed

lemma getCapabilitiesForDomain_requested:
  "snd (getCapabilitiesForDomain srvResolver network domainName) =
     (case getWellKnownBaseUrl srvResolver domainName of Inl e \<Rightarrow> [] | Inr url \<Rightarrow> [url])"
  by (simp add: getCapabilitiesForDomain_def split: sum.splits)

lemma getCapabilitiesForDomain_url:
  "getWellKnownBaseUrl srvResolver domainName = Inr url \<Longrightarrow>
   getCapabilitiesForDomain srvResolver network domainName =
     ((case request_get network url of
         Inl e \<Rightarrow> Inl e
       | Inr response \<Rightarrow> checkCapabilitiesResponse response), [url])"
  by (simp add: getCapabilitiesForDomain_def)

lemma request_get_not_DNSSEC: "request_get network url \<noteq> Inl (DNSSECNotEnabledError m)"
  by (simp add: request_get_def sendRequest_def split: AxiosOutcome.splits option.splits)

lemma checkCapabilitiesResponse_not_DNSSEC:
  "checkCapabilitiesResponse response \<noteq> Inl (DNSSECNotEnabledError m)"
  by (simp add: checkCapabilitiesResponse_def)

text \<open>
  Claim C1. When the resolver returns a response whose first service has a host that, with
  one final dot removed on both sides, equals the domain or \<^verbatim>\<open>www.\<close> followed by the domain,
  the well-known document of that host and port is requested whatever the authenticated-data
  flag says. For any other host with the flag false the operation fails with the error
  ``DNSSEC not enabled on domain'' followed by the host, and nothing is requested. In
  general every URL that \<^verbatim>\<open>getCapabilitiesForDomain\<close> requests is the well-known URL of a
  host that equals the domain or its \<^verbatim>\<open>www\<close> name, or that is the first service of a
  response with the flag true.
\<close>

theorem getCapabilitiesForDomain_trusted_host:
  "(srvResolver domainName ''bsvalias'' ''tcp'' = Inr (Some r) \<and> services r = service # others \<and>
    (domainsAreEqual (host service) domainName \<or>
     domainsAreEqual (host service) (''www.'' @ domainName)) \<longrightarrow>
      getCapabilitiesForDomain srvResolver network domainName =
        ((case request_get network (wellKnownUrl (host service) (port service)) of
            Inl e \<Rightarrow> Inl e
          | Inr response \<Rightarrow> checkCapabilitiesResponse response),
         [wellKnownUrl (host service) (port service)])) \<and>
   (srvResolver domainName ''bsvalias'' ''tcp'' = Inr (Some r) \<and> services r = service # others \<and>
    \<not> domainsAreEqual (host service) domainName \<and>
    \<not> domainsAreEqual (host service) (''www.'' @ domainName) \<and> \<not> isDomainSecure r \<longrightarrow>
      getCapabilitiesForDomain srvResolver network domainName =
        (Inl (DNSSECNotEnabledError (''DNSSEC not enabled on domain '' @ host service)), [])) \<and>
   (url \<in> set (snd (getCapabilitiesForDomain srvResolver network domainName)) \<longrightarrow>
      (\<exists>h p. url = wellKnownUrl h p \<and>
         (domainsAreEqual h domainName \<or> domainsAreEqual h (''www.'' @ domainName) \<or>
          (\<exists>r. srvResolver domainName ''bsvalias'' ''tcp'' = Inr (Some r) \<and> isDomainSecure r \<and>
               services r \<noteq> [] \<and> h = host (hd (services r)))))) \<and>
   (domainsAreEqual a b \<longleftrightarrow> stripTrailingDot a = stripTrailingDot b)"
proof (intro conjI impI)
  assume a: "srvResolver domainName ''bsvalias'' ''tcp'' = Inr (Some r) \<and>
    services r = service # others \<and>
    (domainsAreEqual (host service) domainName \<or>
     domainsAreEqual (host service) (''www.'' @ domainName))"
  then have "getWellKnownBaseUrl srvResolver domainName =
      Inr (wellKnownUrl (host service) (port service))"
    by (auto simp: getWellKnownBaseUrl_service)
  then show "getCapabilitiesForDomain srvResolver network domainName =
        ((case request_get network (wellKnownUrl (host service) (port service)) of
            Inl e \<Rightarrow> Inl e
          | Inr response \<Rightarrow> checkCapabilitiesResponse response),
         [wellKnownUrl (host service) (port service)])"
    by (rule getCapabilitiesForDomain_url)
next
  assume "srvResolver domainName ''bsvalias'' ''tcp'' = Inr (Some r) \<and>
    services r = service # others \<and>
    \<not> domainsAreEqual (host service) domainName \<and>
    \<not> domainsAreEqual (host service) (''www.'' @ domainName) \<and> \<not> isDomainSecure r"
  then have "getWellKnownBaseUrl srvResolver domainName =
      Inl (DNSSECNotEnabledError (''DNSSEC not enabled on domain '' @ host service))"
    by (auto simp: getWellKnownBaseUrl_service)
  then show "getCapabilitiesForDomain srvResolver network domainName =
        (Inl (DNSSECNotEnabledError (''DNSSEC not enabled on domain '' @ host service)), [])"
    by (simp add: getCapabilitiesForDomain_def)
next
  assume "url \<in> set (snd (getCapabilitiesForDomain srvResolver network domainName))"
  then have "getWellKnownBaseUrl srvResolver domainName = Inr url"
    by (auto simp: getCapabilitiesForDomain_requested split: sum.splits)
  then show "\<exists>h p. url = wellKnownUrl h p \<and>
         (domainsAreEqual h domainName \<or> domainsAreEqual h (''www.'' @ domainName) \<or>
          (\<exists>r. srvResolver domainName ''bsvalias'' ''tcp'' = Inr (Some r) \<and> isDomainSecure r \<and>
               services r \<noteq> [] \<and> h = host (hd (services r))))"
    by (rule getWellKnownBaseUrl_trusted)
next
  show "domainsAreEqual a b \<longleftrightarrow> stripTrailingDot a = stripTrailingDot b"
    by (simp add: domainsAreEqual_def)
qed

text \<open>
  Claim C7. When the resolver returns \<^verbatim>\<open>null\<close>, the document is requested from
  \<^verbatim>\<open>https://{domainName}:443/.well-known/bsvalias\<close>, the result is the checked response of
  that request, and the result is never the error of a domain without DNSSEC.
\<close>

theorem getCapabilitiesForDomain_fallback:
  "srvResolver domainName ''bsvalias'' ''tcp'' = Inr None \<longrightarrow>
     getCapabilitiesForDomain srvResolver network domainName =
       ((case request_get network (''https://'' @ domainName @ '':443/.well-known/bsvalias'') of
           Inl e \<Rightarrow> Inl e
         | Inr response \<Rightarrow> checkCapabilitiesResponse response),
        [''https://'' @ domainName @ '':443/.well-known/bsvalias'']) \<and>
     (\<forall>m. fst (getCapabilitiesForDomain srvResolver network domainName) \<noteq>
            Inl (DNSSECNotEnabledError m))"
proof
  assume a: "srvResolver domainName ''bsvalias'' ''tcp'' = Inr None"
  have n: "numberToString 443 = ''443''"
    by (simp add: numberToString_def natToString.simps)
  have u: "wellKnownUrl domainName 443 = ''https://'' @ domainName @ '':443/.well-known/bsvalias''"
    by (simp add: wellKnownUrl_def n)
  have "getWellKnownBaseUrl srvResolver domainName = Inr (wellKnownUrl domainName 443)"
    using a by (rule getWellKnownBaseUrl_null)
  then have g: "getCapabilitiesForDomain srvResolver network domainName =
       ((case request_get network (''https://'' @ domainName @ '':443/.well-known/bsvalias'') of
           Inl e \<Rightarrow> Inl e
         | Inr response \<Rightarrow> checkCapabilitiesResponse response),
        [''https://'' @ domainName @ '':443/.well-known/bsvalias''])"
    unfolding u by (rule getCapabilitiesForDomain_url)
  moreover have "\<forall>m. fst (getCapabilitiesForDomain srvResolver network domainName) \<noteq>
            Inl (DNSSECNotEnabledError m)"
    unfolding g
    by (auto simp: request_get_not_DNSSEC checkCapabilitiesResponse_not_DNSSEC split: sum.splits)
  ultimately show "getCapabilitiesForDomain srvResolver network domainName =
       ((case request_get network (''https://'' @ domainName @ '':443/.well-known/bsvalias'') of
           Inl e \<Rightarrow> Inl e
         | Inr response \<Rightarrow> checkCapabilitiesResponse response),
        [''https://'' @ domainName @ '':443/.well-known/bsvalias'']) \<and>
     (\<forall>m. fst (getCapabilitiesForDomain srvResolver network domainName) \<noteq>
            Inl (DNSSECNotEnabledError m))"
    by blast
qed

theorem getCapabilitiesForDomain_trusted_host_witness:
  "getCapabilitiesForDomain (exampleResolver ''www.mypaymail.co.'' 8443 False)
     (exampleDocument (JString ''1.0'') exampleCapabilities) ''mypaymail.co'' =
     (Inr exampleCapabilities, [''https://www.mypaymail.co.:8443/.well-known/bsvalias'']) \<and>
   getCapabilitiesForDomain (exampleResolver ''example-target.com'' 443 False)
     (exampleDocument (JString ''1.0'') exampleCapabilities) ''mypaymail.co'' =
     (Inl (DNSSECNotEnabledError ''DNSSEC not enabled on domain example-target.com''), []) \<and>
   (\<exists>h p. ''https://www.mypaymail.co.:8443/.well-known/bsvalias'' = wellKnownUrl h p \<and>
      (domainsAreEqual h ''mypaymail.co'' \<or> domainsAreEqual h (''www.'' @ ''mypaymail.co'') \<or>
       (\<exists>r. exampleResolver ''www.mypaymail.co.'' 8443 False ''mypaymail.co'' ''bsvalias'' ''tcp'' =
              Inr (Some r) \<and> isDomainSecure r \<and> services r \<noteq> [] \<and> h = host (hd (services r)))))"
proof -
  let ?net = "exampleDocument (JString ''1.0'') exampleCapabilities"
  let ?r1 = "\<lparr> services = [\<lparr> host = ''www.mypaymail.co.'', port = 8443 \<rparr>], isDomainSecure = False \<rparr>"
  let ?r2 = "\<lparr> services = [\<lparr> host = ''example-target.com'', port = 443 \<rparr>], isDomainSecure = False \<rparr>"
  have e1: "domainsAreEqual ''www.mypaymail.co.'' (''www.'' @ ''mypaymail.co'')" by code_simp
  have e2: "\<not> domainsAreEqual ''example-target.com'' ''mypaymail.co''"
    "\<not> domainsAreEqual ''example-target.com'' (''www.'' @ ''mypaymail.co'')" by code_simp+
  have u: "wellKnownUrl ''www.mypaymail.co.'' 8443 =
      ''https://www.mypaymail.co.:8443/.well-known/bsvalias''"
    by (simp add: wellKnownUrl_def numberToString_def natToString.simps)
  have c: "(case request_get ?net ''https://www.mypaymail.co.:8443/.well-known/bsvalias'' of
        Inl e \<Rightarrow> Inl e | Inr response \<Rightarrow> checkCapabilitiesResponse response) =
      Inr exampleCapabilities" by code_simp
  have r1: "getCapabilitiesForDomain (exampleResolver ''www.mypaymail.co.'' 8443 False) ?net
      ''mypaymail.co'' =
     (Inr exampleCapabilities, [''https://www.mypaymail.co.:8443/.well-known/bsvalias''])"
    using getCapabilitiesForDomain_trusted_host
      [where srvResolver = "exampleResolver ''www.mypaymail.co.'' 8443 False"
         and domainName = "''mypaymail.co''" and r = ?r1
         and service = "\<lparr> host = ''www.mypaymail.co.'', port = 8443 \<rparr>" and others = "[]"
         and network = ?net]
      e1 c
    by (simp add: exampleResolver_def u)
  have r2: "getCapabilitiesForDomain (exampleResolver ''example-target.com'' 443 False) ?net
      ''mypaymail.co'' =
     (Inl (DNSSECNotEnabledError ''DNSSEC not enabled on domain example-target.com''), [])"
    using getCapabilitiesForDomain_trusted_host
      [where srvResolver = "exampleResolver ''example-target.com'' 443 False"
         and domainName = "''mypaymail.co''" and r = ?r2
         and service = "\<lparr> host = ''example-target.com'', port = 443 \<rparr>" and others = "[]"
         and network = ?net]
      e2
    by (simp add: exampleResolver_def)
  have r3: "\<exists>h p. ''https://www.mypaymail.co.:8443/.well-known/bsvalias'' = wellKnownUrl h p \<and>
      (domainsAreEqual h ''mypaymail.co'' \<or> domainsAreEqual h (''www.'' @ ''mypaymail.co'') \<or>
       (\<exists>r. exampleResolver ''www.mypaymail.co.'' 8443 False ''mypaymail.co'' ''bsvalias'' ''tcp'' =
              Inr (Some r) \<and> isDomainSecure r \<and> services r \<noteq> [] \<and> h = host (hd (services r))))"
  proof -
    have mem: "''https://www.mypaymail.co.:8443/.well-known/bsvalias'' \<in>
        set (snd (getCapabilitiesForDomain (exampleResolver ''www.mypaymail.co.'' 8443 False) ?net
          ''mypaymail.co''))"
      using r1 by simp
    note t = getCapabilitiesForDomain_trusted_host
      [where srvResolver = "exampleResolver ''www.mypaymail.co.'' 8443 False"
         and domainName = "''mypaymail.co''" and network = ?net
         and url = "''https://www.mypaymail.co.:8443/.well-known/bsvalias''",
       THEN conjunct2, THEN conjunct2, THEN conjunct1, THEN mp, OF mem]
    show ?thesis by (rule t)
  qed
  show ?thesis by (rule conjI[OF r1 conjI[OF r2 r3]])
qed

theorem getCapabilitiesForDomain_fallback_witness:
  "locateServices (\<lambda>_. Resolves (exampleQuery 3
        (Some [exampleQuestion ''_bsvalias._tcp.mypaymail.co'' 33]) None))
     (\<lambda>_. 0) ''mypaymail.co'' ''bsvalias'' ''tcp'' = Inr None \<and>
   getCapabilitiesForDomain
     (locateServices (\<lambda>_. Resolves (exampleQuery 3
        (Some [exampleQuestion ''_bsvalias._tcp.mypaymail.co'' 33]) None)) (\<lambda>_. 0))
     (exampleDocument (JString ''1.0'') exampleCapabilities) ''mypaymail.co'' =
     (Inr exampleCapabilities, [''https://mypaymail.co:443/.well-known/bsvalias''])"
proof -
  let ?resolver = "locateServices (\<lambda>_. Resolves (exampleQuery 3
        (Some [exampleQuestion ''_bsvalias._tcp.mypaymail.co'' 33]) None)) (\<lambda>_. 0)"
  let ?net = "exampleDocument (JString ''1.0'') exampleCapabilities"
  have n: "?resolver ''mypaymail.co'' ''bsvalias'' ''tcp'' = Inr None" by code_simp
  have c: "(case request_get ?net (''https://'' @ ''mypaymail.co'' @ '':443/.well-known/bsvalias'') of
        Inl e \<Rightarrow> Inl e | Inr response \<Rightarrow> checkCapabilitiesResponse response) =
      Inr exampleCapabilities" by code_simp
  from getCapabilitiesForDomain_fallback
    [where srvResolver = ?resolver and domainName = "''mypaymail.co''" and network = ?net] n
  have "getCapabilitiesForDomain ?resolver ?net ''mypaymail.co'' =
     (Inr exampleCapabilities, [''https://mypaymail.co:443/.well-known/bsvalias''])"
    unfolding c by simp
  with n show ?thesis by blast
qed

subsection \<open>An empty list of services\<close>

lemma concatBands_no_records: "concatBands random k (bandPriorities []) [] = Inr ([], k)"
  by (simp add: bandPriorities_def)

lemma locateServices_all_sentinel:
  assumes "dns (dnsQueryUrl (queryNameOf domainName service protocol)) = Resolves response"
    and "validHeader (queryNameOf domainName service protocol) response"
    and "Answer response = Some answers"
    and "mapDeserialise (matchingAnswers (queryNameOf domainName service protocol) answers) =
           Inr srvRecords"
    and "2 \<le> length srvRecords"
    and "list_all (\<lambda>r. target r = ''.'') srvRecords"
  shows "locateServices dns random domainName service protocol =
           Inr (Some \<lparr> services = [], isDomainSecure = AD response \<rparr>)"
proof -
  let ?q = "queryNameOf domainName service protocol"
  have l: "locateServices dns random domainName service protocol =
      processResponse random ?q response"
    using assms(1) by (rule locateServices_resolved)
  from assms(6) have f: "filter (\<lambda>r. target r = ''.'') srvRecords = srvRecords"
    by (simp add: list_all_iff)
  from assms(6) have n: "nonSentinel srvRecords = []"
    by (simp add: nonSentinel_def list_all_iff)
  from assms(5) have ne: "srvRecords \<noteq> []" "length srvRecords \<noteq> 1" by auto
  show ?thesis
    unfolding l processResponse_valid[OF assms(2) queryNameOf_nonempty]
    using ne
    by (simp add: assms(3) assms(4) f orderByPriorityAndWeight_bands n concatBands_no_records)
qed

text \<open>
  Claim C10. When the resolver returns a response whose list of services is empty,
  \<^verbatim>\<open>getWellKnownBaseUrl\<close> reads the host of the missing first service:
  \<^verbatim>\<open>getCapabilitiesForDomain\<close> ends with a TypeError (which is none of the errors of
  errors.ts) and requests nothing, instead of falling back to the domain.
  \<^verbatim>\<open>DohSrvResolver\<close> returns such a response when the matching answers deserialise to two
  or more records that all have the sentinel target.
\<close>

theorem getCapabilitiesForDomain_empty_services:
  "(srvResolver domainName ''bsvalias'' ''tcp'' = Inr (Some r) \<and> services r = [] \<longrightarrow>
      getCapabilitiesForDomain srvResolver network domainName = (Inl TypeError, [])) \<and>
   (dns (dnsQueryUrl (queryNameOf domainName ''bsvalias'' ''tcp'')) = Resolves response \<and>
    validHeader (queryNameOf domainName ''bsvalias'' ''tcp'') response \<and>
    Answer response = Some answers \<and>
    mapDeserialise (matchingAnswers (queryNameOf domainName ''bsvalias'' ''tcp'') answers) =
      Inr srvRecords \<and>
    2 \<le> length srvRecords \<and> list_all (\<lambda>r. target r = ''.'') srvRecords \<longrightarrow>
      locateServices dns random domainName ''bsvalias'' ''tcp'' =
        Inr (Some \<lparr> services = [], isDomainSecure = AD response \<rparr>) \<and>
      getCapabilitiesForDomain (locateServices dns random) network domainName =
        (Inl TypeError, [])) \<and>
   (\<forall>m status.
      TypeError \<notin> {BsvAliasClientError m, UnexpectedBsvAliasNetworkError m, ConnectionTimeoutError,
        DnsServerResponseError m, BsvAliasClientConfigurationError m,
        BsvAliasServerErrorResponse status, BsvAliasUnexpectedServerResponseError m,
        BsvAliasCapabilityNotSupportedError m, DNSSECNotEnabledError m})"
proof (intro conjI impI)
  show "\<forall>m status.
      TypeError \<notin> {BsvAliasClientError m, UnexpectedBsvAliasNetworkError m, ConnectionTimeoutError,
        DnsServerResponseError m, BsvAliasClientConfigurationError m,
        BsvAliasServerErrorResponse status, BsvAliasUnexpectedServerResponseError m,
        BsvAliasCapabilityNotSupportedError m, DNSSECNotEnabledError m}"
    by simp
next
  assume "srvResolver domainName ''bsvalias'' ''tcp'' = Inr (Some r) \<and> services r = []"
  then have "getWellKnownBaseUrl srvResolver domainName = Inl TypeError"
    by (simp add: getWellKnownBaseUrl_empty)
  then show "getCapabilitiesForDomain srvResolver network domainName = (Inl TypeError, [])"
    by (simp add: getCapabilitiesForDomain_def)
next
  assume a: "dns (dnsQueryUrl (queryNameOf domainName ''bsvalias'' ''tcp'')) = Resolves response \<and>
    validHeader (queryNameOf domainName ''bsvalias'' ''tcp'') response \<and>
    Answer response = Some answers \<and>
    mapDeserialise (matchingAnswers (queryNameOf domainName ''bsvalias'' ''tcp'') answers) =
      Inr srvRecords \<and>
    2 \<le> length srvRecords \<and> list_all (\<lambda>r. target r = ''.'') srvRecords"
  then have l: "locateServices dns random domainName ''bsvalias'' ''tcp'' =
        Inr (Some \<lparr> services = [], isDomainSecure = AD response \<rparr>)"
    by (intro locateServices_all_sentinel) auto
  then show "locateServices dns random domainName ''bsvalias'' ''tcp'' =
        Inr (Some \<lparr> services = [], isDomainSecure = AD response \<rparr>)" .
  from l have "getWellKnownBaseUrl (locateServices dns random) domainName = Inl TypeError"
    by (simp add: getWellKnownBaseUrl_def)
  then show "getCapabilitiesForDomain (locateServices dns random) network domainName =
        (Inl TypeError, [])"
    by (simp add: getCapabilitiesForDomain_def)
qed

theorem getCapabilitiesForDomain_empty_services_witness:
  "locateServices
     (\<lambda>_. Resolves (exampleResponse [exampleAnswer ''10 10 443 .'', exampleAnswer ''7 10 443 .'']))
     (\<lambda>_. 0) ''example.com'' ''bsvalias'' ''tcp'' =
       Inr (Some \<lparr> services = [], isDomainSecure = True \<rparr>) \<and>
   getCapabilitiesForDomain
     (locateServices
        (\<lambda>_. Resolves (exampleResponse [exampleAnswer ''10 10 443 .'', exampleAnswer ''7 10 443 .'']))
        (\<lambda>_. 0))
     (exampleDocument (JString ''1.0'') exampleCapabilities) ''example.com'' = (Inl TypeError, []) \<and>
   getCapabilitiesForDomain
     (\<lambda>domainName service protocol. Inr (Some \<lparr> services = [], isDomainSecure = True \<rparr>))
     (exampleDocument (JString ''1.0'') exampleCapabilities) ''example.com'' = (Inl TypeError, [])"
proof -
  let ?qn = "''_bsvalias._tcp.example.com''"
  let ?answers = "[exampleAnswer ''10 10 443 .'', exampleAnswer ''7 10 443 .'']"
  let ?dns = "\<lambda>_::string. Resolves (exampleResponse ?answers)"
  let ?net = "exampleDocument (JString ''1.0'') exampleCapabilities"
  let ?recs = "[exampleRecord 10 10 ''.'', exampleRecord 7 10 ''.'']"
  have qn: "queryNameOf ''example.com'' ''bsvalias'' ''tcp'' = ?qn"
    by (simp add: queryNameOf_def)
  have v: "validHeader ?qn (exampleResponse ?answers)"
    by (simp add: validHeader_def exampleResponse_def NOERROR_def SRV_def)
  have a: "Answer (exampleResponse ?answers) = Some ?answers" "AD (exampleResponse ?answers) = True"
    by (simp_all add: exampleResponse_def)
  have m: "mapDeserialise (matchingAnswers ?qn ?answers) = Inr ?recs" by code_simp
  have s: "2 \<le> length ?recs" "list_all (\<lambda>r. target r = ''.'') ?recs"
    by (simp_all add: exampleRecord_def)
  note t = getCapabilitiesForDomain_empty_services
    [where dns = ?dns and domainName = "''example.com''" and response = "exampleResponse ?answers"
       and answers = ?answers and srvRecords = ?recs and random = "\<lambda>_. 0" and network = ?net
       and srvResolver = "\<lambda>domainName service protocol.
             Inr (Some \<lparr> services = [], isDomainSecure = True \<rparr>)"
       and r = "\<lparr> services = [], isDomainSecure = True \<rparr>"]
  from t v a m s show ?thesis unfolding qn by simp
qed

subsection \<open>The checks of the capability document\<close>

lemma typeof_object_iff:
  "typeof v = ''object'' \<longleftrightarrow>
     v = JNull \<or> (\<exists>xs. v = JArray xs) \<or> (\<exists>kvs. v = JObject kvs) \<or> v = JBuiltin ''__proto__''"
  by (cases v) auto

lemma getCapabilitiesForDomain_document:
  assumes "getWellKnownBaseUrl srvResolver domainName = Inr url"
    and "network url = Resolves response"
  shows "getCapabilitiesForDomain srvResolver network domainName =
     ((if typeof (capabilities response) \<noteq> ''object''
       then Inl (BsvAliasUnexpectedServerResponseError ''No capabilities returned'')
       else if bsvalias response \<noteq> JString ''1.0''
       then Inl (BsvAliasUnexpectedServerResponseError ''Unsupported BSV alias version'')
       else Inr (capabilities response)), [url])"
  using assms
  by (simp add: getCapabilitiesForDomain_def request_get_def sendRequest_def
        checkCapabilitiesResponse_def BSVALIAS_VERSION_def)

lemma getCapabilitiesForDomain_typeof:
  assumes "fst (getCapabilitiesForDomain srvResolver network domainName) = Inr caps"
  shows "typeof caps = ''object''"
  using assms
  by (auto simp: getCapabilitiesForDomain_def checkCapabilitiesResponse_def
        split: sum.splits if_splits)

lemma isCapabilitySupportedForDomain_object:
  assumes "fst (getCapabilitiesForDomain srvResolver network domainName) = Inr (JObject kvs)"
    and "capabilityCode \<notin> set Object_prototype_properties"
    and "JUndefined \<notin> snd ` set kvs"
  shows "fst (isCapabilitySupportedForDomain srvResolver network capabilityCode domainName) =
           Inr (capabilityCode \<in> fst ` set kvs)"
proof (cases "map_of kvs capabilityCode")
  case None
  then have "capabilityCode \<notin> fst ` set kvs" by (simp add: map_of_eq_None_iff)
  with None assms(1,2) show ?thesis
    by (cases "getCapabilitiesForDomain srvResolver network domainName")
       (simp add: isCapabilitySupportedForDomain_def inheritedProperty_def)
next
  case (Some v)
  then have m: "(capabilityCode, v) \<in> set kvs" by (rule map_of_SomeD)
  then have "v \<noteq> JUndefined" "capabilityCode \<in> fst ` set kvs"
    using assms(3) by force+
  with Some assms(1) show ?thesis
    by (cases "getCapabilitiesForDomain srvResolver network domainName")
       (simp add: isCapabilitySupportedForDomain_def)
qed

text \<open>
  Claim C8, at the document \<^verbatim>\<open>{"bsvalias": "1.0", "capabilities": null}\<close>: the \<^verbatim>\<open>typeof\<close> of
  \<^verbatim>\<open>null\<close> is \<^verbatim>\<open>'object'\<close>, so the first check passes and \<^verbatim>\<open>null\<close> is returned as the
  capabilities, where the claim has the operation fail because no capabilities object is
  present.
\<close>

theorem getCapabilitiesForDomain_null_capabilities:
  "getCapabilitiesForDomain (\<lambda>domainName service protocol. Inr None)
     (exampleDocument (JString ''1.0'') JNull) ''mypaymail.co'' =
     (Inr JNull, [''https://mypaymail.co:443/.well-known/bsvalias''])"
  by (simp add: getCapabilitiesForDomain_def getWellKnownBaseUrl_def domainsAreEqual_def
        numberToString_def natToString.simps request_get_def sendRequest_def exampleDocument_def
        checkCapabilitiesResponse_def BSVALIAS_VERSION_def)

text \<open>
  Claim C9, at two inputs. A capability code that names a property of \<^verbatim>\<open>Object.prototype\<close> is
  reported as supported although the capabilities hold no such key; and with \<^verbatim>\<open>null\<close> as
  capabilities (which \<^verbatim>\<open>getCapabilitiesForDomain\<close> returns, see C8) the member access is a
  TypeError, where the claim has \<^verbatim>\<open>false\<close> returned.
\<close>

theorem isCapabilitySupportedForDomain_inherited_or_null:
  "fst (getCapabilitiesForDomain (\<lambda>domainName service protocol. Inr None)
     (exampleDocument (JString ''1.0'') exampleCapabilities) ''mypaymail.co'') =
     Inr (JObject [(''pki'', JString ''https://bsvalias.example.org/id''),
                   (''paymentDestination'',
                    JString ''https://bsvalias.example.org/payment-destination'')]) \<and>
   isCapabilitySupportedForDomain (\<lambda>domainName service protocol. Inr None)
     (exampleDocument (JString ''1.0'') exampleCapabilities) ''constructor'' ''mypaymail.co'' =
     (Inr True, [''https://mypaymail.co:443/.well-known/bsvalias'']) \<and>
   isCapabilitySupportedForDomain (\<lambda>domainName service protocol. Inr None)
     (exampleDocument (JString ''1.0'') JNull) ''pki'' ''mypaymail.co'' =
     (Inl TypeError, [''https://mypaymail.co:443/.well-known/bsvalias''])"
  by (simp add: isCapabilitySupportedForDomain_def getCapabilitiesForDomain_def
        getWellKnownBaseUrl_def domainsAreEqual_def
        numberToString_def natToString.simps request_get_def sendRequest_def exampleDocument_def
        checkCapabilitiesResponse_def BSVALIAS_VERSION_def exampleCapabilities_def
        inheritedProperty_def Object_prototype_properties_def)

end
